theory Spec2Isabelle
  imports Complex_Main "HOL-Library.Multiset"
begin

section \<open>JavaScript strings and the regular expressions the detector uses\<close>

text \<open>
  A JavaScript string is a sequence of UTF-16 code units; a code unit is modelled by its
  number. \<open>js\<close> writes an ASCII literal. JavaScript numbers are IEEE doubles; they are
  modelled by the rationals they denote. The scorer is defined with the rounding of each
  arithmetic operation as a parameter; the statements about concrete scores, and the
  arithmetic of the detector, are in exact arithmetic, the scorer without rounding.
\<close>

type_synonym jsstring = "nat list"

definition js :: "string \<Rightarrow> jsstring" where
  "js s = map of_char s"

text \<open>The class \<open>\w\<close>: ASCII letters, digits and the underscore.\<close>

definition is_word :: "nat \<Rightarrow> bool" where
  "is_word c \<longleftrightarrow> (48 \<le> c \<and> c \<le> 57) \<or> (65 \<le> c \<and> c \<le> 90) \<or> c = 95 \<or> (97 \<le> c \<and> c \<le> 122)"

text \<open>The class \<open>\s\<close>: white space and line terminators of ECMAScript.\<close>

definition is_space :: "nat \<Rightarrow> bool" where
  "is_space c \<longleftrightarrow> (9 \<le> c \<and> c \<le> 13) \<or> c = 32 \<or> c = 160 \<or> c = 5760
     \<or> (8192 \<le> c \<and> c \<le> 8202) \<or> c = 8232 \<or> c = 8233 \<or> c = 8239 \<or> c = 8287
     \<or> c = 12288 \<or> c = 65279"

text \<open>
  Case-insensitive comparison without the \<open>u\<close> flag canonicalises by upper-casing and
  never maps a code unit above 127 to one below 128. Every literal of the program's
  patterns is ASCII, so comparing the ASCII upper-case forms is exact for them.
\<close>

definition ascii_upper :: "nat \<Rightarrow> nat" where
  "ascii_upper c = (if 97 \<le> c \<and> c \<le> 122 then c - 32 else c)"

definition ascii_lower :: "nat \<Rightarrow> nat" where
  "ascii_lower c = (if 65 \<le> c \<and> c \<le> 90 then c + 32 else c)"

definition toLowerCase :: "jsstring \<Rightarrow> jsstring" where
  "toLowerCase s = map ascii_lower s"

fun ci_prefix :: "jsstring \<Rightarrow> jsstring \<Rightarrow> bool" where
  "ci_prefix [] s = True"
| "ci_prefix (p # ps) [] = False"
| "ci_prefix (p # ps) (c # cs) = (ascii_upper p = ascii_upper c \<and> ci_prefix ps cs)"

fun cs_prefix :: "jsstring \<Rightarrow> jsstring \<Rightarrow> bool" where
  "cs_prefix [] s = True"
| "cs_prefix (p # ps) [] = False"
| "cs_prefix (p # ps) (c # cs) = (p = c \<and> cs_prefix ps cs)"

text \<open>
  \<open>String.prototype.replace\<close> with a global regular expression: \<open>m\<close> gives the
  length of the match that starts at the head of its argument, if there is one. After an
  empty match the scan copies one code unit and moves on.
\<close>

function replace_global :: "(jsstring \<Rightarrow> nat option) \<Rightarrow> jsstring \<Rightarrow> jsstring \<Rightarrow> jsstring" where
  "replace_global m rep [] = (case m [] of Some n \<Rightarrow> rep | None \<Rightarrow> [])"
| "replace_global m rep (c # cs) =
     (case m (c # cs) of
        None \<Rightarrow> c # replace_global m rep cs
      | Some n \<Rightarrow>
          if n = 0 then rep @ c # replace_global m rep cs
          else rep @ replace_global m rep (drop n (c # cs)))"
  by pat_completeness auto
termination
  by (relation "measure (\<lambda>(m, rep, s). length s)") auto

text \<open>Position of the first occurrence of a code unit, and of a literal.\<close>

fun index_of :: "nat \<Rightarrow> jsstring \<Rightarrow> nat option" where
  "index_of x [] = None"
| "index_of x (c # cs) = (if c = x then Some 0 else map_option Suc (index_of x cs))"

fun index_of_lit :: "jsstring \<Rightarrow> jsstring \<Rightarrow> nat option" where
  "index_of_lit p [] = (if p = [] then Some 0 else None)"
| "index_of_lit p (c # cs) =
     (if cs_prefix p (c # cs) then Some 0 else map_option Suc (index_of_lit p cs))"

text \<open>\<open>/<[^>]*>/\<close>: a \<open><\<close>, then everything up to the next \<open>>\<close>.\<close>

definition tag_at :: "jsstring \<Rightarrow> nat option" where
  "tag_at s = (case s of [] \<Rightarrow> None
     | c # cs \<Rightarrow> if c = 60 then map_option (\<lambda>k. k + 2) (index_of 62 cs) else None)"

text \<open>\<open>/<!--[\s\S]*?-->/\<close>: the opener, then lazily up to the first closer.\<close>

definition comment_at :: "jsstring \<Rightarrow> nat option" where
  "comment_at s = (if cs_prefix (js ''<!--'') s
     then map_option (\<lambda>k. k + 7) (index_of_lit (js ''-->'') (drop 4 s)) else None)"

text \<open>A literal, compared case-insensitively (\<open>/javascript:/gi\<close>, \<open>/data:/gi\<close>).\<close>

definition lit_ci_at :: "jsstring \<Rightarrow> jsstring \<Rightarrow> nat option" where
  "lit_ci_at p s = (if ci_prefix p s then Some (length p) else None)"

text \<open>\<open>/[^\w\s\-_.]/\<close>: one code unit outside the safe classes.\<close>

definition unsafe_at :: "jsstring \<Rightarrow> nat option" where
  "unsafe_at s = (case s of [] \<Rightarrow> None
     | c # cs \<Rightarrow> if is_word c \<or> is_space c \<or> c = 45 \<or> c = 95 \<or> c = 46 then None else Some 1)"

definition sanitizeInput :: "jsstring \<Rightarrow> jsstring" where
  "sanitizeInput text =
     take 10000
       (replace_global unsafe_at (js '' '')
         (replace_global (lit_ci_at (js ''data:'')) []
           (replace_global (lit_ci_at (js ''javascript:'')) []
             (replace_global comment_at []
               (replace_global tag_at [] text)))))"

subsection \<open>The bias patterns as regular expressions\<close>

text \<open>
  Every pattern of the registry is a sequence of word boundaries, alternations of
  literals and one run \<open>\s+\<close>. The matcher backtracks as the ECMAScript one does: the
  alternatives are tried in order, \<open>\s+\<close> is greedy and gives code units back one at a
  time. It returns the length of the match found at the head of the text; \<open>prev\<close> tells
  whether the code unit before the head is a word character.
\<close>

datatype rx_item = WordBoundary | Alt "jsstring list" | Spaces

fun match_items :: "rx_item list \<Rightarrow> bool \<Rightarrow> jsstring \<Rightarrow> nat option"
  and match_alts :: "jsstring list \<Rightarrow> rx_item list \<Rightarrow> bool \<Rightarrow> jsstring \<Rightarrow> nat option"
  and match_spaces :: "rx_item list \<Rightarrow> jsstring \<Rightarrow> nat option"
where
  "match_items [] prev s = Some 0"
| "match_items (WordBoundary # k) prev s =
     (if prev \<noteq> (case s of [] \<Rightarrow> False | c # cs \<Rightarrow> is_word c) then match_items k prev s else None)"
| "match_items (Alt ls # k) prev s = match_alts ls k prev s"
| "match_items (Spaces # k) prev [] = None"
| "match_items (Spaces # k) prev (c # cs) =
     (if is_space c then map_option Suc (match_spaces k cs) else None)"
| "match_alts [] k prev s = None"
| "match_alts (l # ls) k prev s =
     (if ci_prefix l s
      then (case match_items k (if l = [] then prev else is_word (s ! (length l - 1))) (drop (length l) s) of
              Some n \<Rightarrow> Some (length l + n)
            | None \<Rightarrow> match_alts ls k prev s)
      else match_alts ls k prev s)"
| "match_spaces k [] = match_items k False []"
| "match_spaces k (c # cs) =
     (if is_space c
      then (case match_spaces k cs of Some n \<Rightarrow> Some (Suc n) | None \<Rightarrow> match_items k False (c # cs))
      else match_items k False (c # cs))"

text \<open>
  \<open>String.prototype.match\<close> with the \<open>g\<close> flag: all matches from left to right, each
  search starting where the last match ended. The empty list stands for \<open>null\<close>.
\<close>

function match_global_from :: "rx_item list \<Rightarrow> bool \<Rightarrow> jsstring \<Rightarrow> jsstring list" where
  "match_global_from p prev [] = (case match_items p prev [] of Some n \<Rightarrow> [[]] | None \<Rightarrow> [])"
| "match_global_from p prev (c # cs) =
     (case match_items p prev (c # cs) of
        None \<Rightarrow> match_global_from p (is_word c) cs
      | Some n \<Rightarrow>
          if n = 0 then [] # match_global_from p (is_word c) cs
          else take n (c # cs) # match_global_from p (is_word ((c # cs) ! (n - 1))) (drop n (c # cs)))"
  by pat_completeness auto
termination
  by (relation "measure (\<lambda>(p, prev, s). length s)") auto

definition match_global :: "rx_item list \<Rightarrow> jsstring \<Rightarrow> jsstring list" where
  "match_global p s = match_global_from p False s"

text \<open>\<open>RegExp.prototype.test\<close>: is there a match anywhere in the text.\<close>

definition rx_test :: "rx_item list \<Rightarrow> jsstring \<Rightarrow> bool" where
  "rx_test p s \<longleftrightarrow> match_global p s \<noteq> []"


section \<open>Data model\<close>

datatype env_mode = Hackathon | Production

datatype detection_level = Strict | Moderate | Lenient

datatype severity = Low | Medium | High | Critical

datatype bias_type = gender_exclusive | age_discriminatory | racial_proxy
  | cultural_insensitive | accessibility_barrier

record thresholds =
  critical :: rat
  high :: rat
  medium :: rat

record features =
  demographicAnalysis :: bool
  culturalTrends :: bool
  geospatialInsights :: bool
  batchProcessing :: bool
  realtimeSignals :: bool

record EnvironmentConfig =
  mode :: env_mode
  enableFullPotential :: bool
  apiEndpoint :: string
  biasDetectionLevel :: detection_level
  complianceThresholds :: thresholds
  enabledFeatures :: features

text \<open>An entry of \<open>BIAS_PATTERNS\<close>: a finding without its matches and confidence.\<close>

record rule =
  rule_type :: bias_type
  rule_pattern :: "rx_item list"
  rule_severity :: severity
  rule_suggestions :: "string list"
  rule_regulation_risk :: "string list"
  detectionLevel :: "detection_level list"

record BiasPattern =
  type :: bias_type
  pattern :: "rx_item list"
  severity :: severity
  matches :: "jsstring list"
  suggestions :: "string list"
  regulation_risk :: "string list"
  confidence :: rat

record ComplianceScore =
  euAiAct :: rat
  section508 :: rat
  gdpr :: rat
  riskLevel :: severity
  overallScore :: rat
  regulations_triggered :: "string list"

definition DEFAULT_HACKATHON_CONFIG :: EnvironmentConfig where
  "DEFAULT_HACKATHON_CONFIG = \<lparr>
     mode = Hackathon,
     enableFullPotential = False,
     apiEndpoint = ''https://hackathon.api.qloo.com'',
     biasDetectionLevel = Lenient,
     complianceThresholds = \<lparr>critical = 20, high = 40, medium = 60\<rparr>,
     enabledFeatures = \<lparr>demographicAnalysis = False, culturalTrends = True,
       geospatialInsights = False, batchProcessing = True, realtimeSignals = True\<rparr>\<rparr>"

definition DEFAULT_PRODUCTION_CONFIG :: EnvironmentConfig where
  "DEFAULT_PRODUCTION_CONFIG = \<lparr>
     mode = Production,
     enableFullPotential = True,
     apiEndpoint = ''https://api.qloo.com'',
     biasDetectionLevel = Strict,
     complianceThresholds = \<lparr>critical = 10, high = 25, medium = 50\<rparr>,
     enabledFeatures = \<lparr>demographicAnalysis = True, culturalTrends = True,
       geospatialInsights = True, batchProcessing = True, realtimeSignals = True\<rparr>\<rparr>"

section \<open>The pattern registry\<close>

text \<open>\<open>\b(?:a|b|...)\b\<close>\<close>

definition bounded_alt :: "string list \<Rightarrow> rx_item list" where
  "bounded_alt ws = [WordBoundary, Alt (map js ws), WordBoundary]"

definition guys_only :: rule where
  "guys_only = \<lparr>
     rule_type = gender_exclusive,
     rule_pattern = bounded_alt [''guys'', ''bros'', ''brotherhood'', ''manpower'', ''man-hours'',
       ''policeman'', ''fireman'', ''chairman'', ''businessman''],
     rule_severity = Medium,
     rule_suggestions = [''team'', ''colleagues'', ''workforce'', ''person-hours'', ''police officer'',
       ''firefighter'', ''chairperson'', ''businessperson''],
     rule_regulation_risk = [''EU_AI_ACT'', ''EEOC'', ''TITLE_VII''],
     detectionLevel = [Strict, Moderate]\<rparr>"

definition gendered_roles :: rule where
  "gendered_roles = \<lparr>
     rule_type = gender_exclusive,
     rule_pattern = [WordBoundary, Alt (map js [''rockstar'', ''ninja'', ''guru'', ''wizard'']), Spaces,
       Alt (map js [''developer'', ''engineer'', ''programmer'']), WordBoundary],
     rule_severity = Medium,
     rule_suggestions = [''skilled developer'', ''expert engineer'', ''experienced programmer'',
       ''talented developer''],
     rule_regulation_risk = [''EU_AI_ACT'', ''EEOC''],
     detectionLevel = [Strict]\<rparr>"

definition age_proxy :: rule where
  "age_proxy = \<lparr>
     rule_type = age_discriminatory,
     rule_pattern = bounded_alt [''young'', ''recent graduate'', ''digital native'', ''energy'', ''fresh'',
       ''millennial'', ''gen-z'', ''generation z'', ''under 30'', ''20-something''],
     rule_severity = High,
     rule_suggestions = [''qualified'', ''experienced'', ''skilled'', ''motivated'', ''enthusiastic'',
       ''tech-savvy''],
     rule_regulation_risk = [''ADEA'', ''EU_AI_ACT'', ''AGE_DISCRIMINATION_ACT''],
     detectionLevel = [Strict, Moderate, Lenient]\<rparr>"

definition senior_bias :: rule where
  "senior_bias = \<lparr>
     rule_type = age_discriminatory,
     rule_pattern = bounded_alt [''overqualified'', ''too experienced'', ''set in ways'', ''old school'',
       ''traditional methods'', ''not tech-savvy''],
     rule_severity = High,
     rule_suggestions = [''highly qualified'', ''extensively experienced'', ''proven methods'',
       ''established practices''],
     rule_regulation_risk = [''ADEA'', ''EU_AI_ACT''],
     detectionLevel = [Strict, Moderate]\<rparr>"

definition location_proxy :: rule where
  "location_proxy = \<lparr>
     rule_type = racial_proxy,
     rule_pattern = bounded_alt [''94110'', ''94102'', ''10025'', ''10128'', ''90210'', ''90211'', ''60601'',
       ''60605'', ''inner city'', ''urban'', ''suburban'', ''from the hood'', ''ghetto'', ''barrio''],
     rule_severity = Critical,
     rule_suggestions = [''location-flexible'', ''remote-friendly'', ''multiple locations'', ''urban area'',
       ''metropolitan area''],
     rule_regulation_risk = [''FAIR_HOUSING_ACT'', ''GDPR'', ''EU_AI_ACT'', ''CIVIL_RIGHTS_ACT''],
     detectionLevel = [Strict, Moderate, Lenient]\<rparr>"

definition education_proxy :: rule where
  "education_proxy = \<lparr>
     rule_type = racial_proxy,
     rule_pattern = bounded_alt [''ivy league'', ''tier-1 college'', ''top university'', ''elite school'',
       ''prestigious institution''],
     rule_severity = Medium,
     rule_suggestions = [''accredited university'', ''relevant education'', ''qualified institution'',
       ''recognized degree''],
     rule_regulation_risk = [''EU_AI_ACT'', ''EEOC''],
     detectionLevel = [Strict]\<rparr>"

definition cultural_assumption :: rule where
  "cultural_assumption = \<lparr>
     rule_type = cultural_insensitive,
     rule_pattern = bounded_alt [''native speaker'', ''american values'', ''western mindset'',
       ''traditional family'', ''christian values'', ''normal family'', ''typical american''],
     rule_severity = High,
     rule_suggestions = [''fluent in'', ''aligned with company values'', ''diverse perspectives'',
       ''inclusive values'', ''family-friendly''],
     rule_regulation_risk = [''TITLE_VII'', ''EU_AI_ACT'', ''RELIGIOUS_FREEDOM_ACT''],
     detectionLevel = [Strict, Moderate]\<rparr>"

definition name_bias :: rule where
  "name_bias = \<lparr>
     rule_type = cultural_insensitive,
     rule_pattern = bounded_alt [''easy to pronounce name'', ''american sounding name'', ''simple name'',
       ''anglicized name''],
     rule_severity = Critical,
     rule_suggestions = [''clear communication skills'', ''professional presentation'',
       ''effective communication''],
     rule_regulation_risk = [''TITLE_VII'', ''EU_AI_ACT'', ''NATIONAL_ORIGIN_DISCRIMINATION''],
     detectionLevel = [Strict, Moderate, Lenient]\<rparr>"

definition ability_exclusive :: rule where
  "ability_exclusive = \<lparr>
     rule_type = accessibility_barrier,
     rule_pattern = bounded_alt [''must be able to lift'', ''perfect vision'', ''hearing required'',
       ''no accommodations'', ''physically demanding'', ''requires standing'',
       ''manual dexterity required''],
     rule_severity = Critical,
     rule_suggestions = [''with or without accommodation'', ''reasonable accommodations provided'',
       ''essential job functions''],
     rule_regulation_risk = [''ADA'', ''SECTION_508'', ''EU_ACCESSIBILITY_ACT'', ''REHABILITATION_ACT''],
     detectionLevel = [Strict, Moderate, Lenient]\<rparr>"

definition cognitive_bias :: rule where
  "cognitive_bias = \<lparr>
     rule_type = accessibility_barrier,
     rule_pattern = bounded_alt [''fast-paced environment'', ''high-stress'', ''multitasking required'',
       ''quick thinking'', ''rapid response'', ''immediate decisions''],
     rule_severity = Medium,
     rule_suggestions = [''dynamic environment'', ''collaborative setting'', ''efficient workflow'',
       ''effective decision-making''],
     rule_regulation_risk = [''ADA'', ''EU_ACCESSIBILITY_ACT''],
     detectionLevel = [Strict]\<rparr>"

text \<open>The entries in the order \<open>Object.entries\<close> visits them.\<close>

definition BIAS_PATTERNS :: "rule list" where
  "BIAS_PATTERNS = [guys_only, gendered_roles, age_proxy, senior_bias, location_proxy,
     education_proxy, cultural_assumption, name_bias, ability_exclusive, cognitive_bias]"


section \<open>Bias detection\<close>

text \<open>
  The static field \<open>config\<close> of the detector is unset until \<open>setConfig\<close> runs; reading
  a property of it then throws a \<open>TypeError\<close>.
\<close>

datatype js_error = TypeError

definition setConfig :: "EnvironmentConfig \<Rightarrow> EnvironmentConfig option" where
  "setConfig c = Some c"

definition contextWords :: "bias_type \<Rightarrow> string list" where
  "contextWords t = (case t of
       gender_exclusive \<Rightarrow> [''hiring'', ''job'', ''position'', ''role'', ''team'']
     | age_discriminatory \<Rightarrow> [''candidate'', ''applicant'', ''hire'', ''employee'']
     | racial_proxy \<Rightarrow> [''location'', ''area'', ''neighborhood'', ''zip'']
     | cultural_insensitive \<Rightarrow> [''background'', ''culture'', ''family'', ''values'']
     | accessibility_barrier \<Rightarrow> [''requirement'', ''must'', ''able'', ''capacity''])"

definition calculateConfidence :: "jsstring list \<Rightarrow> jsstring \<Rightarrow> bias_type \<Rightarrow> rat" where
  "calculateConfidence ms text biasType =
     (let confidence = 7 / 10 + min (of_nat (length ms) * (1 / 10)) (2 / 10);
          contextMatches = length (filter (\<lambda>word. rx_test (bounded_alt [word]) text) (contextWords biasType))
      in min (confidence + of_nat contextMatches * (5 / 100)) 1)"

text \<open>A finding: the rule without its detection levels, with matches and confidence.\<close>

definition finding_of :: "rule \<Rightarrow> jsstring list \<Rightarrow> rat \<Rightarrow> BiasPattern" where
  "finding_of r ms c =
     \<lparr>type = rule_type r, pattern = rule_pattern r, severity = rule_severity r,
      matches = ms, suggestions = rule_suggestions r,
      regulation_risk = rule_regulation_risk r, confidence = c\<rparr>"

text \<open>The body of the loop over the registry: the finding of one rule, if it has one.\<close>

definition detect_rule :: "EnvironmentConfig \<Rightarrow> jsstring \<Rightarrow> rule \<Rightarrow> BiasPattern option" where
  "detect_rule cfg sanitizedText r =
     (if biasDetectionLevel cfg \<notin> set (detectionLevel r) then None
      else let ms = match_global (rule_pattern r) sanitizedText in
        if ms = [] then None
        else let c = calculateConfidence ms sanitizedText (rule_type r);
                 adjustedConfidence =
                   (case mode cfg of
                      Hackathon \<Rightarrow>
                        if rule_severity r = Low \<or> rule_severity r = Medium then c * (8 / 10) else c
                    | Production \<Rightarrow> c * (11 / 10))
             in Some (finding_of r (map toLowerCase ms) (min adjustedConfidence 1)))"

fun scan_rules :: "EnvironmentConfig \<Rightarrow> jsstring \<Rightarrow> rule list \<Rightarrow> BiasPattern list" where
  "scan_rules cfg t [] = []"
| "scan_rules cfg t (r # rs) =
     (case detect_rule cfg t r of None \<Rightarrow> scan_rules cfg t rs | Some b \<Rightarrow> b # scan_rules cfg t rs)"

text \<open>
  \<open>Array.prototype.sort\<close> is stable; the comparator \<open>b.confidence - a.confidence\<close>
  orders by falling confidence. \<open>sort_key\<close> is a stable insertion sort.
\<close>

text \<open>The text of scenario A, as given and as the sanitizer leaves it.\<close>

definition scenario_A :: jsstring where
  "scenario_A = js ''We're looking for young, energetic guys... Native English speakers preferred.''"

definition scenario_A_sanitized :: jsstring where
  "scenario_A_sanitized =
     js ''We re looking for young  energetic guys... Native English speakers preferred.''"

definition detect_with :: "EnvironmentConfig \<Rightarrow> jsstring \<Rightarrow> BiasPattern list" where
  "detect_with cfg text =
     sort_key (\<lambda>b. - confidence b) (scan_rules cfg (sanitizeInput text) BIAS_PATTERNS)"

definition detectBiasPatterns :: "EnvironmentConfig option \<Rightarrow> jsstring \<Rightarrow> js_error + BiasPattern list" where
  "detectBiasPatterns config text =
     (case config of None \<Rightarrow> Inl TypeError | Some cfg \<Rightarrow> Inr (detect_with cfg text))"

section \<open>Compliance scoring\<close>

definition severityMultiplier :: "env_mode \<Rightarrow> severity \<Rightarrow> rat" where
  "severityMultiplier m s = (case m of
       Hackathon \<Rightarrow> (case s of Low \<Rightarrow> 2 | Medium \<Rightarrow> 8 | High \<Rightarrow> 20 | Critical \<Rightarrow> 35)
     | Production \<Rightarrow> (case s of Low \<Rightarrow> 3 | Medium \<Rightarrow> 10 | High \<Rightarrow> 25 | Critical \<Rightarrow> 45))"

record penalties =
  pen_euAiAct :: rat
  pen_section508 :: rat
  pen_gdpr :: rat

definition regulationPenalty :: "env_mode \<Rightarrow> penalties" where
  "regulationPenalty m = (case m of
       Hackathon \<Rightarrow> \<lparr>pen_euAiAct = 15, pen_section508 = 12, pen_gdpr = 18\<rparr>
     | Production \<Rightarrow> \<lparr>pen_euAiAct = 25, pen_section508 = 20, pen_gdpr = 30\<rparr>)"

text \<open>A \<open>Set\<close> of strings keeps its elements in the order of their first insertion.\<close>

definition set_add :: "string \<Rightarrow> string list \<Rightarrow> string list" where
  "set_add r rs = (if r \<in> set rs then rs else rs @ [r])"

text \<open>
  An arithmetic operation on doubles returns the rounding of its exact result. The
  rounding \<open>rnd\<close> is a parameter of the scorer. Rounding to nearest is monotone and leaves
  every representable number, 0 among them, as it is; overflow is not modelled.
\<close>

definition rounding :: "(rat \<Rightarrow> rat) \<Rightarrow> bool" where
  "rounding rnd \<longleftrightarrow> mono rnd \<and> (\<forall>x. rnd (rnd x) = rnd x) \<and> rnd 0 = 0"

text \<open>
  The loop over the findings: the running deduction and the regulations seen. The product
  and the sum are rounded, in the order of the list.
\<close>

fun score_loop_fl ::
  "(rat \<Rightarrow> rat) \<Rightarrow> env_mode \<Rightarrow> BiasPattern list \<Rightarrow> rat \<times> string list \<Rightarrow> rat \<times> string list" where
  "score_loop_fl rnd m [] acc = acc"
| "score_loop_fl rnd m (bias # rest) (totalDeductions, regulations) =
     score_loop_fl rnd m rest
       (rnd (totalDeductions + rnd (severityMultiplier m (severity bias) * confidence bias)),
        fold set_add (regulation_risk bias) regulations)"

text \<open>The loop in exact arithmetic.\<close>

definition score_loop :: "env_mode \<Rightarrow> BiasPattern list \<Rightarrow> rat \<times> string list \<Rightarrow> rat \<times> string list" where
  "score_loop m biasPatterns acc = score_loop_fl (\<lambda>x. x) m biasPatterns acc"

definition hasRegulationRisk :: "string list \<Rightarrow> string list \<Rightarrow> bool" where
  "hasRegulationRisk regulations targetRegulations \<longleftrightarrow>
     list_ex (\<lambda>reg. reg \<in> set regulations) targetRegulations"

definition euAiActRegulations :: "string list" where
  "euAiActRegulations = [''EU_AI_ACT'']"

definition section508Regulations :: "string list" where
  "section508Regulations = [''SECTION_508'', ''ADA'', ''REHABILITATION_ACT'', ''EU_ACCESSIBILITY_ACT'']"

definition gdprRegulations :: "string list" where
  "gdprRegulations = [''GDPR'', ''FAIR_HOUSING_ACT'', ''CIVIL_RIGHTS_ACT'']"

text \<open>The score of one regulation bucket, and the risk level of an overall score.\<close>

definition bucket_score_fl :: "(rat \<Rightarrow> rat) \<Rightarrow> bool \<Rightarrow> rat \<Rightarrow> rat \<Rightarrow> rat" where
  "bucket_score_fl rnd atRisk baseScore penalty =
     (if atRisk then max 0 (rnd (baseScore - penalty)) else baseScore)"

definition risk_level :: "thresholds \<Rightarrow> rat \<Rightarrow> severity" where
  "risk_level th overall =
     (if overall < critical th then Critical
      else if overall < high th then High
      else if overall < medium th then Medium
      else Low)"

definition score_of_fl :: "(rat \<Rightarrow> rat) \<Rightarrow> EnvironmentConfig \<Rightarrow> rat \<Rightarrow> string list \<Rightarrow> ComplianceScore" where
  "score_of_fl rnd cfg totalDeductions regulations =
     (let baseScore = max 0 (rnd (100 - totalDeductions));
          pen = regulationPenalty (mode cfg);
          eu = bucket_score_fl rnd (hasRegulationRisk regulations euAiActRegulations) baseScore
                 (pen_euAiAct pen);
          s508 = bucket_score_fl rnd (hasRegulationRisk regulations section508Regulations) baseScore
                   (pen_section508 pen);
          gd = bucket_score_fl rnd (hasRegulationRisk regulations gdprRegulations) baseScore
                 (pen_gdpr pen);
          overall = min eu (min s508 gd)
      in \<lparr>euAiAct = eu, section508 = s508, gdpr = gd,
          riskLevel = risk_level (complianceThresholds cfg) overall,
          overallScore = overall, regulations_triggered = regulations\<rparr>)"

definition score_with_fl :: "(rat \<Rightarrow> rat) \<Rightarrow> EnvironmentConfig \<Rightarrow> BiasPattern list \<Rightarrow> ComplianceScore" where
  "score_with_fl rnd cfg biasPatterns =
     (case score_loop_fl rnd (mode cfg) biasPatterns (0, []) of
        (totalDeductions, regulations) \<Rightarrow> score_of_fl rnd cfg totalDeductions regulations)"

definition calculateComplianceScore_fl ::
  "(rat \<Rightarrow> rat) \<Rightarrow> EnvironmentConfig option \<Rightarrow> BiasPattern list \<Rightarrow> js_error + ComplianceScore" where
  "calculateComplianceScore_fl rnd config biasPatterns =
     (case config of None \<Rightarrow> Inl TypeError | Some cfg \<Rightarrow> Inr (score_with_fl rnd cfg biasPatterns))"

text \<open>The scorer in exact arithmetic.\<close>

definition bucket_score :: "bool \<Rightarrow> rat \<Rightarrow> rat \<Rightarrow> rat" where
  "bucket_score atRisk baseScore penalty = bucket_score_fl (\<lambda>x. x) atRisk baseScore penalty"

definition score_of :: "EnvironmentConfig \<Rightarrow> rat \<Rightarrow> string list \<Rightarrow> ComplianceScore" where
  "score_of cfg totalDeductions regulations = score_of_fl (\<lambda>x. x) cfg totalDeductions regulations"

definition score_with :: "EnvironmentConfig \<Rightarrow> BiasPattern list \<Rightarrow> ComplianceScore" where
  "score_with cfg biasPatterns = score_with_fl (\<lambda>x. x) cfg biasPatterns"

definition calculateComplianceScore :: "EnvironmentConfig option \<Rightarrow> BiasPattern list \<Rightarrow> js_error + ComplianceScore" where
  "calculateComplianceScore config biasPatterns =
     (case config of None \<Rightarrow> Inl TypeError | Some cfg \<Rightarrow> Inr (score_with cfg biasPatterns))"


text \<open>
  \<open>inserted P F1 F2\<close>: the list \<open>F2\<close> is \<open>F1\<close> with additional elements, each
  satisfying \<open>P\<close>, put in at any places; the elements of \<open>F1\<close> keep their order.
\<close>

inductive inserted :: "('a \<Rightarrow> bool) \<Rightarrow> 'a list \<Rightarrow> 'a list \<Rightarrow> bool" for P where
  inserted_Nil: "inserted P [] []"
| inserted_keep: "inserted P xs ys \<Longrightarrow> inserted P (x # xs) (x # ys)"
| inserted_add: "P y \<Longrightarrow> inserted P xs ys \<Longrightarrow> inserted P xs (y # ys)"

text \<open>The static field \<open>config\<close> as the class declaration leaves it: not initialised.\<close>

definition uninitialised_config :: "EnvironmentConfig option" where
  "uninitialised_config = None"

section \<open>The cache\<close>

text \<open>
  A \<open>Map\<close> iterates in insertion order; it is modelled by an association list in that
  order. \<open>Map.set\<close> on a present key updates the entry where it stands, on a fresh key
  it adds the entry at the end. \<open>Date.now()\<close> is the argument \<open>now\<close>.
\<close>

record 'v cache_item =
  item_value :: 'v
  item_timestamp :: int
  accessCount :: nat

type_synonym 'v entries = "(string \<times> 'v cache_item) list"

record 'v LRUCache =
  cache :: "'v entries"
  maxSize :: int
  ttl :: int

definition LRUCache_new :: "int \<Rightarrow> int \<Rightarrow> 'v LRUCache" where
  "LRUCache_new maxSize0 ttlMs = \<lparr>cache = [], maxSize = maxSize0, ttl = ttlMs\<rparr>"

definition map_delete :: "string \<Rightarrow> 'v entries \<Rightarrow> 'v entries" where
  "map_delete k m = filter (\<lambda>e. fst e \<noteq> k) m"

fun map_set :: "string \<Rightarrow> 'v cache_item \<Rightarrow> 'v entries \<Rightarrow> 'v entries" where
  "map_set k v [] = [(k, v)]"
| "map_set k v (e # es) = (if fst e = k then (k, v) # es else e # map_set k v es)"

definition cache_get :: "'v LRUCache \<Rightarrow> int \<Rightarrow> string \<Rightarrow> 'v option \<times> 'v LRUCache" where
  "cache_get c now key =
     (case map_of (cache c) key of
        None \<Rightarrow> (None, c)
      | Some item \<Rightarrow>
          if now - item_timestamp item > ttl c
          then (None, c\<lparr>cache := map_delete key (cache c)\<rparr>)
          else let item' = item\<lparr>accessCount := accessCount item + 1\<rparr>
               in (Some (item_value item'),
                   c\<lparr>cache := map_set key item' (map_delete key (cache c))\<rparr>))"

text \<open>
  The loop of \<open>set\<close>: while the size has reached \<open>maxSize\<close>, delete the first key of
  the map; on an empty map there is no first key and the loop breaks.
\<close>

function evict :: "int \<Rightarrow> 'v entries \<Rightarrow> 'v entries" where
  "evict cap [] = []"
| "evict cap (e # es) =
     (if int (length (e # es)) \<ge> cap then evict cap (map_delete (fst e) (e # es))
      else e # es)"
  by pat_completeness auto
termination
  by (relation "measure (\<lambda>(m, es). length es)") (auto simp: map_delete_def less_Suc_eq_le)

definition cache_set :: "'v LRUCache \<Rightarrow> int \<Rightarrow> string \<Rightarrow> 'v \<Rightarrow> 'v LRUCache" where
  "cache_set c now key v =
     c\<lparr>cache := map_set key \<lparr>item_value = v, item_timestamp = now, accessCount = 1\<rparr>
                  (evict (maxSize c) (cache c))\<rparr>"

definition cache_keys :: "'v LRUCache \<Rightarrow> string list" where
  "cache_keys c = map fst (cache c)"

section \<open>The circuit breaker\<close>

datatype cb_state = Closed | Open | HalfOpen

record CircuitBreaker =
  failures :: int
  lastFailureTime :: int
  threshold :: int
  timeout :: int
  state :: cb_state
  successCount :: int




text \<open>
  The guard at the head of \<open>execute\<close>: \<open>None\<close> when the call is refused, else the
  breaker as the wrapped operation finds it.
\<close>

definition admit :: "CircuitBreaker \<Rightarrow> int \<Rightarrow> CircuitBreaker option" where
  "admit cb now =
     (if state cb = Open
      then if now - lastFailureTime cb > timeout cb
           then Some (cb\<lparr>state := HalfOpen, successCount := 0\<rparr>)
           else None
      else Some cb)"







section \<open>The rate limiter\<close>

record SimpleRateLimiter =
  tokens :: int
  lastRefill :: int
  tokensPerInterval :: int
  interval :: int

definition SimpleRateLimiter_new :: "int \<Rightarrow> string \<Rightarrow> int \<Rightarrow> SimpleRateLimiter" where
  "SimpleRateLimiter_new perInterval intervalName now =
     \<lparr>tokens = perInterval, lastRefill = now, tokensPerInterval = perInterval,
      interval = (if intervalName = ''minute'' then 60000 else 1000)\<rparr>"

text \<open>
  \<open>removeTokens\<close> returns a promise: \<open>None\<close> stands for the promise that is already
  resolved, \<open>Some waitTime\<close> for the one a timer resolves after \<open>waitTime\<close> milliseconds.
\<close>

definition removeTokens :: "SimpleRateLimiter \<Rightarrow> int \<Rightarrow> int \<Rightarrow> int option \<times> SimpleRateLimiter" where
  "removeTokens rl now cnt =
     (let timePassed = now - lastRefill rl;
          rl1 = (if timePassed \<ge> interval rl
                 then rl\<lparr>tokens := tokensPerInterval rl, lastRefill := now\<rparr> else rl)
      in if tokens rl1 \<ge> cnt then (None, rl1\<lparr>tokens := tokens rl1 - cnt\<rparr>)
         else (Some (interval rl1 - timePassed), rl1))"

text \<open>Calls made one after the other, each with its time and its count.\<close>

fun remove_all :: "SimpleRateLimiter \<Rightarrow> (int \<times> int) list \<Rightarrow> int option list \<times> SimpleRateLimiter" where
  "remove_all rl [] = ([], rl)"
| "remove_all rl ((now, cnt) # calls) =
     (case removeTokens rl now cnt of
        (p, rl') \<Rightarrow> (case remove_all rl' calls of (ps, rl'') \<Rightarrow> (p # ps, rl'')))"


section \<open>The analysis orchestrator\<close>

record AuditTrail =
  timestamp :: string
  sessionId :: string
  userId :: "string option"
  originalContent :: jsstring
  contentHash :: string
  detectedBias :: "BiasPattern list"
  qlooEntities :: "string list"
  complianceScore :: ComplianceScore
  mitigationActions :: "string list"
  processingTime :: int
  apiCallsCount :: int
  cacheHits :: nat

text \<open>
  What the orchestrator takes from outside itself. The world \<open>'w\<close> holds the clock, the
  random source, the caches, the limiter, the breaker and the remote service.
  \<open>culturalAnalysis\<close> stands for steps 2 and 3 of \<open>analyzeContent\<close> (entity
  extraction, cached or remote look-ups, demographic analysis): it returns the entities and
  the demographics or throws, and tells how many cache hits it counted before. The text
  of the mitigation actions is message formatting. \<open>MAX_AUDIT_TRAILS\<close> is what
  \<open>parseInt\<close> makes of the environment variable, \<open>None\<close> for \<open>NaN\<close>.
\<close>

record ('w, 'x, 'ent, 'd) externals =
  date_now :: "'w \<Rightarrow> int"
  iso_time :: "'w \<Rightarrow> string"
  generateSessionId :: "'w \<Rightarrow> string"
  sha256_hex :: "jsstring \<Rightarrow> string"
  apiCallCount :: "'w \<Rightarrow> int"
  sleep :: "int \<Rightarrow> 'w \<Rightarrow> 'w"
  MAX_AUDIT_TRAILS :: "int option"
  culturalAnalysis :: "jsstring \<Rightarrow> 'w \<Rightarrow> ('x + 'ent list \<times> 'd list) \<times> nat \<times> 'w"
  entity_id :: "'ent \<Rightarrow> string"
  generateMitigationActions :: "BiasPattern list \<Rightarrow> string list"

record 'w client =
  detector_config :: "EnvironmentConfig option"
  auditTrails :: "AuditTrail list"
  world :: 'w

datatype 'x analysis_error = DetectorError js_error | AnalysisError 'x

record ('ent, 'd) analysis =
  biasAnalysis :: "BiasPattern list"
  analysis_complianceScore :: ComplianceScore
  culturalEntities :: "'ent list"
  auditTrail :: AuditTrail
  demographics :: "'d list option"

text \<open>\<open>Array.prototype.slice(start)\<close>: a negative start counts from the end.\<close>

definition slice_from :: "int \<Rightarrow> 'a list \<Rightarrow> 'a list" where
  "slice_from start xs =
     (if start < 0 then drop (nat (int (length xs) + start)) xs else drop (nat start) xs)"

definition addAuditTrail :: "int option \<Rightarrow> AuditTrail \<Rightarrow> AuditTrail list \<Rightarrow> AuditTrail list" where
  "addAuditTrail maxTrails trail trails =
     (let pushed = trails @ [trail]
      in case maxTrails of
           None \<Rightarrow> pushed
         | Some m \<Rightarrow> if int (length pushed) > m then slice_from (- m) pushed else pushed)"

definition error_score :: "string \<Rightarrow> ComplianceScore" where
  "error_score tag = \<lparr>euAiAct = 0, section508 = 0, gdpr = 0, riskLevel = Critical,
     overallScore = 0, regulations_triggered = [tag]\<rparr>"

text \<open>
  The two audit records of \<open>analyzeContent\<close>: the one of the \<open>catch\<close> block and the
  one of a completed analysis. \<open>w0\<close> is the world when the call starts, \<open>w1\<close> the
  world when the record is made.
\<close>

definition error_trail ::
  "('w, 'x, 'ent, 'd) externals \<Rightarrow> 'w \<Rightarrow> 'w \<Rightarrow> jsstring \<Rightarrow> string option \<Rightarrow> nat \<Rightarrow> AuditTrail" where
  "error_trail ext w0 w1 content uid hits =
     \<lparr>timestamp = iso_time ext w1, sessionId = generateSessionId ext w0, userId = uid,
      originalContent = take 1000 content, contentHash = sha256_hex ext content,
      detectedBias = [], qlooEntities = [],
      complianceScore = error_score ''SYSTEM_ERROR'',
      mitigationActions = [''System error occurred during analysis''],
      processingTime = date_now ext w1 - date_now ext w0,
      apiCallsCount = apiCallCount ext w1 - apiCallCount ext w0,
      cacheHits = hits\<rparr>"

definition success_trail ::
  "('w, 'x, 'ent, 'd) externals \<Rightarrow> 'w \<Rightarrow> 'w \<Rightarrow> jsstring \<Rightarrow> string option \<Rightarrow> nat
     \<Rightarrow> BiasPattern list \<Rightarrow> ComplianceScore \<Rightarrow> 'ent list \<Rightarrow> AuditTrail" where
  "success_trail ext w0 w1 content uid hits bias score ents =
     \<lparr>timestamp = iso_time ext w1, sessionId = generateSessionId ext w0, userId = uid,
      originalContent = take 1000 content, contentHash = sha256_hex ext content,
      detectedBias = bias, qlooEntities = map (entity_id ext) ents,
      complianceScore = score,
      mitigationActions = generateMitigationActions ext bias,
      processingTime = date_now ext w1 - date_now ext w0,
      apiCallsCount = apiCallCount ext w1 - apiCallCount ext w0,
      cacheHits = hits\<rparr>"

text \<open>The \<open>catch\<close> block: record the error trail, throw the error again.\<close>

definition caught ::
  "('w, 'x, 'ent, 'd) externals \<Rightarrow> 'w client \<Rightarrow> jsstring \<Rightarrow> string option
     \<Rightarrow> 'x analysis_error \<Rightarrow> nat \<Rightarrow> 'w
     \<Rightarrow> ('x analysis_error + ('ent, 'd) analysis) \<times> 'w client" where
  "caught ext cl content uid error hits w1 =
     (Inl error,
      cl\<lparr>auditTrails := addAuditTrail (MAX_AUDIT_TRAILS ext)
             (error_trail ext (world cl) w1 content uid hits) (auditTrails cl),
         world := w1\<rparr>)"

definition analyzeContent ::
  "('w, 'x, 'ent, 'd) externals \<Rightarrow> 'w client \<Rightarrow> jsstring \<Rightarrow> string option
     \<Rightarrow> ('x analysis_error + ('ent, 'd) analysis) \<times> 'w client" where
  "analyzeContent ext cl content uid =
     (let w0 = world cl
      in case detectBiasPatterns (detector_config cl) content of
           Inl e \<Rightarrow> caught ext cl content uid (DetectorError e) 0 w0
         | Inr bias \<Rightarrow>
             (case calculateComplianceScore (detector_config cl) bias of
                Inl e \<Rightarrow> caught ext cl content uid (DetectorError e) 0 w0
              | Inr score \<Rightarrow>
                  (case culturalAnalysis ext content w0 of
                     (Inl e, hits, w1) \<Rightarrow> caught ext cl content uid (AnalysisError e) hits w1
                   | (Inr (ents, demos), hits, w1) \<Rightarrow>
                       let trail = success_trail ext w0 w1 content uid hits bias score ents
                       in (Inr \<lparr>biasAnalysis = bias, analysis_complianceScore = score,
                                 culturalEntities = ents, auditTrail = trail,
                                 demographics = (if length demos > 0 then Some demos else None)\<rparr>,
                           cl\<lparr>auditTrails := addAuditTrail (MAX_AUDIT_TRAILS ext) trail (auditTrails cl),
                              world := w1\<rparr>))))"

subsection \<open>Batches\<close>

text \<open>
  The quotient of two JavaScript numbers: a division by zero gives \<open>NaN\<close> or an
  infinity, it does not throw.
\<close>

datatype jsnum = Finite rat | NaN | PosInfinity | NegInfinity

definition js_divide :: "rat \<Rightarrow> rat \<Rightarrow> jsnum" where
  "js_divide a b =
     (if b = 0 then (if a = 0 then NaN else if a > 0 then PosInfinity else NegInfinity)
      else Finite (a / b))"

record BatchAuditRequest =
  content :: jsstring
  user_id :: "string option"

record ('x, 'ent) batch_row =
  index :: nat
  row_biasAnalysis :: "BiasPattern list"
  row_complianceScore :: ComplianceScore
  row_culturalEntities :: "'ent list"
  row_processingTime :: int
  row_error :: "'x analysis_error option"

record batch_summary =
  totalProcessed :: nat
  avgComplianceScore :: jsnum
  criticalIssuesCount :: nat
  summary_processingTime :: int

record ('x, 'ent) BatchAuditResult =
  success :: bool
  results :: "('x, 'ent) batch_row list"
  summary :: batch_summary

text \<open>
  One request of a batch. The requests of a batch run concurrently in the source; the
  model runs them in the order of the batch.
\<close>

definition process_request ::
  "('w, 'x, 'ent, 'd) externals \<Rightarrow> nat \<times> BatchAuditRequest
     \<Rightarrow> ('x, 'ent) batch_row list \<times> rat \<times> nat \<times> 'w client
     \<Rightarrow> ('x, 'ent) batch_row list \<times> rat \<times> nat \<times> 'w client" where
  "process_request ext ir st =
     (case st of (rows, totalComplianceScore, criticalIssues, cl) \<Rightarrow>
        (case analyzeContent ext cl (content (snd ir)) (user_id (snd ir)) of
           (Inr a, cl') \<Rightarrow>
             (rows @ [\<lparr>index = fst ir, row_biasAnalysis = biasAnalysis a,
                       row_complianceScore = analysis_complianceScore a,
                       row_culturalEntities = culturalEntities a,
                       row_processingTime = processingTime (auditTrail a),
                       row_error = None\<rparr>],
              totalComplianceScore + overallScore (analysis_complianceScore a),
              (if riskLevel (analysis_complianceScore a) = Critical then criticalIssues + 1
               else criticalIssues),
              cl')
         | (Inl e, cl') \<Rightarrow>
             (rows @ [\<lparr>index = fst ir, row_biasAnalysis = [],
                       row_complianceScore = error_score ''PROCESSING_ERROR'',
                       row_culturalEntities = [], row_processingTime = 0,
                       row_error = Some e\<rparr>],
              totalComplianceScore, criticalIssues, cl')))"

function batch_loop ::
  "('w, 'x, 'ent, 'd) externals \<Rightarrow> nat \<Rightarrow> BatchAuditRequest list
     \<Rightarrow> ('x, 'ent) batch_row list \<times> rat \<times> nat \<times> 'w client
     \<Rightarrow> ('x, 'ent) batch_row list \<times> rat \<times> nat \<times> 'w client" where
  "batch_loop ext i requests st =
     (if i < length requests
      then let batch = take 5 (drop i requests);
               st1 = fold (process_request ext) (zip [i ..< i + length batch] batch) st;
               st2 = (if i + 5 < length requests
                      then (case st1 of (rows, tot, crit, cl) \<Rightarrow>
                              (rows, tot, crit, cl\<lparr>world := sleep ext 1000 (world cl)\<rparr>))
                      else st1)
           in batch_loop ext (i + 5) requests st2
      else st)"
  by pat_completeness auto
termination
  by (relation "measure (\<lambda>(ext, i, requests, st). length requests - i)") auto

definition batchCulturalAudit ::
  "('w, 'x, 'ent, 'd) externals \<Rightarrow> 'w client \<Rightarrow> BatchAuditRequest list
     \<Rightarrow> ('x, 'ent) BatchAuditResult \<times> 'w client" where
  "batchCulturalAudit ext cl requests =
     (let startTime = date_now ext (world cl)
      in case batch_loop ext 0 requests ([], 0, 0, cl) of
           (rows, totalComplianceScore, criticalIssues, cl') \<Rightarrow>
             (\<lparr>success = True, results = rows,
               summary = \<lparr>totalProcessed = length requests,
                          avgComplianceScore =
                            js_divide totalComplianceScore (of_nat (length requests)),
                          criticalIssuesCount = criticalIssues,
                          summary_processingTime = date_now ext (world cl') - startTime\<rparr>\<rparr>,
              cl'))"


section \<open>The scorer in exact arithmetic\<close>

lemma score_loop_simps [simp]:
  "score_loop m [] acc = acc"
  "score_loop m (bias # rest) (totalDeductions, regulations) =
     score_loop m rest
       (totalDeductions + severityMultiplier m (severity bias) * confidence bias,
        fold set_add (regulation_risk bias) regulations)"
  by (simp_all add: score_loop_def)

lemma bucket_score_exact:
  "bucket_score atRisk baseScore penalty =
     (if atRisk then max 0 (baseScore - penalty) else baseScore)"
  by (simp add: bucket_score_def bucket_score_fl_def)

lemma score_of_exact:
  "score_of cfg totalDeductions regulations =
     (let baseScore = max 0 (100 - totalDeductions);
          pen = regulationPenalty (mode cfg);
          eu = bucket_score (hasRegulationRisk regulations euAiActRegulations) baseScore (pen_euAiAct pen);
          s508 = bucket_score (hasRegulationRisk regulations section508Regulations) baseScore
                   (pen_section508 pen);
          gd = bucket_score (hasRegulationRisk regulations gdprRegulations) baseScore (pen_gdpr pen);
          overall = min eu (min s508 gd)
      in \<lparr>euAiAct = eu, section508 = s508, gdpr = gd,
          riskLevel = risk_level (complianceThresholds cfg) overall,
          overallScore = overall, regulations_triggered = regulations\<rparr>)"
  by (simp add: score_of_def score_of_fl_def bucket_score_def)

lemma score_with_exact:
  "score_with cfg biasPatterns =
     (case score_loop (mode cfg) biasPatterns (0, []) of
        (totalDeductions, regulations) \<Rightarrow> score_of cfg totalDeductions regulations)"
  by (simp add: score_with_def score_with_fl_def score_loop_def score_of_def)

lemma calculateComplianceScore_exact:
  "calculateComplianceScore config biasPatterns = calculateComplianceScore_fl (\<lambda>x. x) config biasPatterns"
  by (cases config) (simp_all add: calculateComplianceScore_def calculateComplianceScore_fl_def score_with_def)

section \<open>Evaluation of the detector\<close>

lemmas rule_defs = guys_only_def gendered_roles_def age_proxy_def senior_bias_def
  location_proxy_def education_proxy_def cultural_assumption_def name_bias_def
  ability_exclusive_def cognitive_bias_def

lemmas rx_defs = match_global_def rx_test_def bounded_alt_def js_def is_word_def is_space_def
  ascii_upper_def

lemma sanitizeInput_empty: "sanitizeInput [] = []"
  by (simp add: sanitizeInput_def tag_at_def comment_at_def lit_ci_at_def unsafe_at_def js_def)

lemma detect_rule_inactive:
  "biasDetectionLevel cfg \<notin> set (detectionLevel r) \<Longrightarrow> detect_rule cfg t r = None"
  by (simp add: detect_rule_def)

lemma detect_rule_no_match:
  "match_global (rule_pattern r) t = [] \<Longrightarrow> detect_rule cfg t r = None"
  by (simp add: detect_rule_def)

lemma detect_rule_production:
  assumes "mode cfg = Production" "biasDetectionLevel cfg \<in> set (detectionLevel r)"
    and "match_global (rule_pattern r) t = ms" "ms \<noteq> []"
  shows "detect_rule cfg t r =
    Some (finding_of r (map toLowerCase ms) (min (calculateConfidence ms t (rule_type r) * (11 / 10)) 1))"
  using assms by (simp add: detect_rule_def Let_def)

lemma detect_rule_hackathon:
  assumes "mode cfg = Hackathon" "biasDetectionLevel cfg \<in> set (detectionLevel r)"
    and "match_global (rule_pattern r) t = ms" "ms \<noteq> []"
  shows "detect_rule cfg t r =
    Some (finding_of r (map toLowerCase ms)
      (min (if rule_severity r = Low \<or> rule_severity r = Medium
            then calculateConfidence ms t (rule_type r) * (8 / 10)
            else calculateConfidence ms t (rule_type r)) 1))"
  using assms by (simp add: detect_rule_def Let_def)

lemma match_global_empty_text:
  "match_global (rule_pattern guys_only) [] = []"
  "match_global (rule_pattern gendered_roles) [] = []"
  "match_global (rule_pattern age_proxy) [] = []"
  "match_global (rule_pattern senior_bias) [] = []"
  "match_global (rule_pattern location_proxy) [] = []"
  "match_global (rule_pattern education_proxy) [] = []"
  "match_global (rule_pattern cultural_assumption) [] = []"
  "match_global (rule_pattern name_bias) [] = []"
  "match_global (rule_pattern ability_exclusive) [] = []"
  "match_global (rule_pattern cognitive_bias) [] = []"
  by (simp_all add: rule_defs match_global_def bounded_alt_def)

lemma detect_with_empty: "detect_with cfg [] = []"
  by (simp add: detect_with_def sanitizeInput_empty BIAS_PATTERNS_def detect_rule_no_match
      match_global_empty_text)

lemma sanitize_scenario_A: "sanitizeInput scenario_A = scenario_A_sanitized"
  by (simp add: scenario_A_def scenario_A_sanitized_def sanitizeInput_def tag_at_def comment_at_def
      lit_ci_at_def unsafe_at_def js_def is_word_def is_space_def ascii_upper_def)

lemma match_scenario_A:
  "match_global (rule_pattern guys_only) scenario_A_sanitized = [js ''guys'']"
  "match_global (rule_pattern gendered_roles) scenario_A_sanitized = []"
  "match_global (rule_pattern age_proxy) scenario_A_sanitized = [js ''young'']"
  "match_global (rule_pattern senior_bias) scenario_A_sanitized = []"
  "match_global (rule_pattern location_proxy) scenario_A_sanitized = []"
  "match_global (rule_pattern education_proxy) scenario_A_sanitized = []"
  "match_global (rule_pattern cultural_assumption) scenario_A_sanitized = []"
  "match_global (rule_pattern name_bias) scenario_A_sanitized = []"
  "match_global (rule_pattern ability_exclusive) scenario_A_sanitized = []"
  "match_global (rule_pattern cognitive_bias) scenario_A_sanitized = []"
  by (simp_all add: scenario_A_sanitized_def rule_defs rx_defs)

lemma confidence_scenario_A:
  "calculateConfidence [js ''guys''] scenario_A_sanitized gender_exclusive = 4 / 5"
  "calculateConfidence [js ''young''] scenario_A_sanitized age_discriminatory = 4 / 5"
  by (simp_all add: calculateConfidence_def contextWords_def scenario_A_sanitized_def rx_defs)

lemma lower_scenario_A:
  "toLowerCase (js ''guys'') = js ''guys''"
  "toLowerCase (js ''young'') = js ''young''"
  by (simp_all add: js_def toLowerCase_def ascii_lower_def)

lemma scan_scenario_A_production:
  "scan_rules DEFAULT_PRODUCTION_CONFIG scenario_A_sanitized BIAS_PATTERNS =
     [finding_of guys_only [js ''guys''] (22 / 25), finding_of age_proxy [js ''young''] (22 / 25)]"
proof -
  have m: "mode DEFAULT_PRODUCTION_CONFIG = Production"
    and l: "biasDetectionLevel DEFAULT_PRODUCTION_CONFIG = Strict"
    by (simp_all add: DEFAULT_PRODUCTION_CONFIG_def)
  have g: "detect_rule DEFAULT_PRODUCTION_CONFIG scenario_A_sanitized guys_only =
      Some (finding_of guys_only [js ''guys''] (22 / 25))"
    by (subst detect_rule_production [OF m _ match_scenario_A(1)])
       (simp_all add: l guys_only_def confidence_scenario_A lower_scenario_A)
  have a: "detect_rule DEFAULT_PRODUCTION_CONFIG scenario_A_sanitized age_proxy =
      Some (finding_of age_proxy [js ''young''] (22 / 25))"
    by (subst detect_rule_production [OF m _ match_scenario_A(3)])
       (simp_all add: l age_proxy_def confidence_scenario_A lower_scenario_A)
  show ?thesis
    by (simp add: BIAS_PATTERNS_def g a detect_rule_no_match match_scenario_A)
qed

lemma scan_scenario_A_hackathon:
  "scan_rules DEFAULT_HACKATHON_CONFIG scenario_A_sanitized BIAS_PATTERNS =
     [finding_of age_proxy [js ''young''] (4 / 5)]"
proof -
  have m: "mode DEFAULT_HACKATHON_CONFIG = Hackathon"
    and l: "biasDetectionLevel DEFAULT_HACKATHON_CONFIG = Lenient"
    by (simp_all add: DEFAULT_HACKATHON_CONFIG_def)
  have g: "detect_rule DEFAULT_HACKATHON_CONFIG scenario_A_sanitized guys_only = None"
    by (rule detect_rule_inactive) (simp add: l guys_only_def)
  have a: "detect_rule DEFAULT_HACKATHON_CONFIG scenario_A_sanitized age_proxy =
      Some (finding_of age_proxy [js ''young''] (4 / 5))"
    by (subst detect_rule_hackathon [OF m _ match_scenario_A(3)])
       (simp_all add: l age_proxy_def confidence_scenario_A lower_scenario_A)
  show ?thesis
    by (simp add: BIAS_PATTERNS_def g a detect_rule_no_match match_scenario_A)
qed

lemma detect_scenario_A_production:
  "detect_with DEFAULT_PRODUCTION_CONFIG scenario_A =
     [finding_of guys_only [js ''guys''] (22 / 25), finding_of age_proxy [js ''young''] (22 / 25)]"
  by (simp add: detect_with_def sanitize_scenario_A scan_scenario_A_production finding_of_def)

lemma detect_scenario_A_hackathon:
  "detect_with DEFAULT_HACKATHON_CONFIG scenario_A = [finding_of age_proxy [js ''young''] (4 / 5)]"
  by (simp add: detect_with_def sanitize_scenario_A scan_scenario_A_hackathon)


section \<open>Evaluation of the scorer\<close>

lemma score_of_clean:
  "score_of cfg 0 [] =
     \<lparr>euAiAct = 100, section508 = 100, gdpr = 100,
      riskLevel = risk_level (complianceThresholds cfg) 100,
      overallScore = 100, regulations_triggered = []\<rparr>"
  by (simp add: score_of_exact Let_def bucket_score_exact hasRegulationRisk_def
      euAiActRegulations_def section508Regulations_def gdprRegulations_def)

lemma score_with_empty:
  "score_with cfg [] =
     \<lparr>euAiAct = 100, section508 = 100, gdpr = 100,
      riskLevel = risk_level (complianceThresholds cfg) 100,
      overallScore = 100, regulations_triggered = []\<rparr>"
  by (simp add: score_with_exact score_of_clean)

lemma risk_level_100:
  "risk_level th 100 = Low \<longleftrightarrow> critical th \<le> 100 \<and> high th \<le> 100 \<and> medium th \<le> 100"
  by (auto simp add: risk_level_def)

lemma loop_scenario_A_production:
  "score_loop Production
     [finding_of guys_only [js ''guys''] (22 / 25), finding_of age_proxy [js ''young''] (22 / 25)]
     (0, []) =
   (154 / 5, [''EU_AI_ACT'', ''EEOC'', ''TITLE_VII'', ''ADEA'', ''AGE_DISCRIMINATION_ACT''])"
  by (simp add: finding_of_def guys_only_def age_proxy_def severityMultiplier_def set_add_def)

lemma score_of_scenario_A_production:
  "score_of DEFAULT_PRODUCTION_CONFIG (154 / 5)
     [''EU_AI_ACT'', ''EEOC'', ''TITLE_VII'', ''ADEA'', ''AGE_DISCRIMINATION_ACT''] =
   \<lparr>euAiAct = 221 / 5, section508 = 346 / 5, gdpr = 346 / 5, riskLevel = Medium,
    overallScore = 221 / 5,
    regulations_triggered = [''EU_AI_ACT'', ''EEOC'', ''TITLE_VII'', ''ADEA'', ''AGE_DISCRIMINATION_ACT'']\<rparr>"
  by (simp add: score_of_exact Let_def DEFAULT_PRODUCTION_CONFIG_def regulationPenalty_def
      bucket_score_exact risk_level_def hasRegulationRisk_def euAiActRegulations_def
      section508Regulations_def gdprRegulations_def)

lemma score_scenario_A_production:
  "score_with DEFAULT_PRODUCTION_CONFIG
     [finding_of guys_only [js ''guys''] (22 / 25), finding_of age_proxy [js ''young''] (22 / 25)] =
   \<lparr>euAiAct = 221 / 5, section508 = 346 / 5, gdpr = 346 / 5, riskLevel = Medium,
    overallScore = 221 / 5,
    regulations_triggered = [''EU_AI_ACT'', ''EEOC'', ''TITLE_VII'', ''ADEA'', ''AGE_DISCRIMINATION_ACT'']\<rparr>"
proof -
  have "mode DEFAULT_PRODUCTION_CONFIG = Production"
    by (simp add: DEFAULT_PRODUCTION_CONFIG_def)
  then show ?thesis
    by (simp only: score_with_exact loop_scenario_A_production score_of_scenario_A_production prod.case)
qed

lemma loop_scenario_A_hackathon:
  "score_loop Hackathon [finding_of age_proxy [js ''young''] (4 / 5)] (0, []) =
   (16, [''ADEA'', ''EU_AI_ACT'', ''AGE_DISCRIMINATION_ACT''])"
  by (simp add: finding_of_def age_proxy_def severityMultiplier_def set_add_def)

lemma score_of_scenario_A_hackathon:
  "score_of DEFAULT_HACKATHON_CONFIG 16 [''ADEA'', ''EU_AI_ACT'', ''AGE_DISCRIMINATION_ACT''] =
   \<lparr>euAiAct = 69, section508 = 84, gdpr = 84, riskLevel = Low, overallScore = 69,
    regulations_triggered = [''ADEA'', ''EU_AI_ACT'', ''AGE_DISCRIMINATION_ACT'']\<rparr>"
  by (simp add: score_of_exact Let_def DEFAULT_HACKATHON_CONFIG_def regulationPenalty_def
      bucket_score_exact risk_level_def hasRegulationRisk_def euAiActRegulations_def
      section508Regulations_def gdprRegulations_def)

lemma score_scenario_A_hackathon:
  "score_with DEFAULT_HACKATHON_CONFIG [finding_of age_proxy [js ''young''] (4 / 5)] =
   \<lparr>euAiAct = 69, section508 = 84, gdpr = 84, riskLevel = Low, overallScore = 69,
    regulations_triggered = [''ADEA'', ''EU_AI_ACT'', ''AGE_DISCRIMINATION_ACT'']\<rparr>"
proof -
  have "mode DEFAULT_HACKATHON_CONFIG = Hackathon"
    by (simp add: DEFAULT_HACKATHON_CONFIG_def)
  then show ?thesis
    by (simp only: score_with_exact loop_scenario_A_hackathon score_of_scenario_A_hackathon prod.case)
qed

section \<open>Scenario A\<close>

text \<open>
  Claim C1, as the code has it. Under the default Production configuration (detection level
  strict) the text of scenario A yields exactly two findings, one of category
  \<open>gender_exclusive\<close> matching \<open>guys\<close> and one of category \<open>age_discriminatory\<close>
  matching \<open>young\<close>, each with confidence 0.88. The overall score is 44.2, which is below
  50, and the risk level is medium: 44.2 is not below the Production threshold 25 for high.
\<close>

theorem scenario_A_production:
  "detectBiasPatterns (Some DEFAULT_PRODUCTION_CONFIG) scenario_A =
     Inr [finding_of guys_only [js ''guys''] (22 / 25), finding_of age_proxy [js ''young''] (22 / 25)]
   \<and> type (finding_of guys_only [js ''guys''] (22 / 25)) = gender_exclusive
   \<and> type (finding_of age_proxy [js ''young''] (22 / 25)) = age_discriminatory
   \<and> calculateComplianceScore (Some DEFAULT_PRODUCTION_CONFIG)
        [finding_of guys_only [js ''guys''] (22 / 25), finding_of age_proxy [js ''young''] (22 / 25)] =
      Inr \<lparr>euAiAct = 221 / 5, section508 = 346 / 5, gdpr = 346 / 5, riskLevel = Medium,
           overallScore = 221 / 5,
           regulations_triggered =
             [''EU_AI_ACT'', ''EEOC'', ''TITLE_VII'', ''ADEA'', ''AGE_DISCRIMINATION_ACT'']\<rparr>
   \<and> (221 / 5 :: rat) < 50"
  by (simp add: detectBiasPatterns_def calculateComplianceScore_def detect_scenario_A_production
      score_scenario_A_production)
     (simp add: finding_of_def guys_only_def age_proxy_def)

text \<open>
  The risk level of scenario A under the Production configuration is medium, neither high
  nor critical.
\<close>

theorem scenario_A_risk_counterexample:
  "detectBiasPatterns (Some DEFAULT_PRODUCTION_CONFIG) scenario_A =
     Inr [finding_of guys_only [js ''guys''] (22 / 25), finding_of age_proxy [js ''young''] (22 / 25)]
   \<and> map_sum id riskLevel (calculateComplianceScore (Some DEFAULT_PRODUCTION_CONFIG)
        [finding_of guys_only [js ''guys''] (22 / 25), finding_of age_proxy [js ''young''] (22 / 25)]) =
      Inr Medium
   \<and> Medium \<noteq> High \<and> Medium \<noteq> Critical"
  by (simp add: detectBiasPatterns_def calculateComplianceScore_def detect_scenario_A_production
      score_scenario_A_production)

section \<open>No throw, empty input\<close>

lemma configured_detector_returns:
  "(\<exists>fs. detectBiasPatterns (setConfig cfg) text = Inr fs)
   \<and> (\<exists>sc. calculateComplianceScore (setConfig cfg) findings = Inr sc)
   \<and> detectBiasPatterns (setConfig cfg) [] = Inr []"
  by (simp add: detectBiasPatterns_def calculateComplianceScore_def setConfig_def detect_with_empty)

text \<open>
  Claim C7, where the code departs from it. The class declares its static field \<open>config\<close>
  without a value. Until \<open>setConfig\<close> has run, \<open>detectBiasPatterns\<close> throws a
  \<open>TypeError\<close> for every string, the empty one included, and \<open>calculateComplianceScore\<close>
  throws it for every list of findings. (Once a configuration is set both return for every
  input, and the empty string yields no finding: lemma \<open>configured_detector_returns\<close>.)
\<close>

theorem unconfigured_detector_throws:
  "detectBiasPatterns uninitialised_config text = Inl TypeError
   \<and> detectBiasPatterns uninitialised_config [] = Inl TypeError
   \<and> calculateComplianceScore uninitialised_config findings = Inl TypeError"
  by (simp add: detectBiasPatterns_def calculateComplianceScore_def uninitialised_config_def)

text \<open>
  Claim C8, as the code has it. For every configuration the empty string yields no finding,
  and the empty list of findings scores 100 overall with no regulation triggered. Its risk
  level is low exactly when none of the three thresholds of the configuration exceeds 100,
  which holds for both default configurations.
\<close>

theorem empty_input_score:
  "detectBiasPatterns (Some cfg) [] = Inr []
   \<and> (\<exists>sc. calculateComplianceScore (Some cfg) [] = Inr sc
         \<and> overallScore sc = 100 \<and> regulations_triggered sc = []
         \<and> (riskLevel sc = Low \<longleftrightarrow>
              critical (complianceThresholds cfg) \<le> 100 \<and> high (complianceThresholds cfg) \<le> 100
              \<and> medium (complianceThresholds cfg) \<le> 100))"
  by (simp add: detectBiasPatterns_def calculateComplianceScore_def detect_with_empty
      score_with_empty risk_level_100)

theorem empty_input_score_witness:
  "calculateComplianceScore (Some DEFAULT_PRODUCTION_CONFIG) [] =
     Inr \<lparr>euAiAct = 100, section508 = 100, gdpr = 100, riskLevel = Low, overallScore = 100,
          regulations_triggered = []\<rparr>
   \<and> calculateComplianceScore (Some DEFAULT_HACKATHON_CONFIG) [] =
     Inr \<lparr>euAiAct = 100, section508 = 100, gdpr = 100, riskLevel = Low, overallScore = 100,
          regulations_triggered = []\<rparr>"
  using empty_input_score [of DEFAULT_PRODUCTION_CONFIG] empty_input_score [of DEFAULT_HACKATHON_CONFIG]
  by (simp add: calculateComplianceScore_def score_with_empty DEFAULT_PRODUCTION_CONFIG_def
      DEFAULT_HACKATHON_CONFIG_def)

text \<open>
  A configuration whose medium threshold is 101: the empty list of findings scores 100 and
  its risk level is medium.
\<close>

theorem empty_input_risk_counterexample:
  "calculateComplianceScore
     (Some (DEFAULT_PRODUCTION_CONFIG\<lparr>complianceThresholds := \<lparr>critical = 10, high = 25, medium = 101\<rparr>\<rparr>)) [] =
     Inr \<lparr>euAiAct = 100, section508 = 100, gdpr = 100, riskLevel = Medium, overallScore = 100,
          regulations_triggered = []\<rparr>
   \<and> Medium \<noteq> Low"
  by (simp add: calculateComplianceScore_def score_with_empty risk_level_def DEFAULT_PRODUCTION_CONFIG_def)



section \<open>The rate limiter's wait path\<close>

lemma removeTokens_wait:
  assumes "tokens rl < cnt" "now - lastRefill rl < interval rl"
  shows "removeTokens rl now cnt = (Some (lastRefill rl + interval rl - now), rl)"
  using assms by (simp add: removeTokens_def Let_def algebra_simps)

lemma remove_all_wait:
  assumes "list_all (\<lambda>(now, cnt). tokens rl < cnt \<and> now - lastRefill rl < interval rl) calls"
  shows "remove_all rl calls = (map (\<lambda>(now, cnt). Some (lastRefill rl + interval rl - now)) calls, rl)"
  using assms by (induction calls) (auto simp: removeTokens_wait)

text \<open>
  Claim C9. When fewer than \<open>cnt\<close> tokens are left and the interval has not elapsed since
  the last refill, \<open>removeTokens\<close> returns a promise that a timer resolves at the refill
  boundary \<open>lastRefill + interval\<close>, and leaves the limiter as it was: no token is
  deducted and \<open>lastRefill\<close> is not updated. So any number of such calls, made one after
  the other, all take the wait path on the same unchanged limiter and all resolve at that
  boundary, however small the capacity \<open>tokensPerInterval\<close> is.
\<close>

theorem removeTokens_wait_path:
  assumes "tokens rl < cnt" and "now - lastRefill rl < interval rl"
    and "list_all (\<lambda>(now, cnt). tokens rl < cnt \<and> now - lastRefill rl < interval rl) calls"
  shows "removeTokens rl now cnt = (Some (interval rl - (now - lastRefill rl)), rl)
    \<and> now + (interval rl - (now - lastRefill rl)) = lastRefill rl + interval rl
    \<and> remove_all rl calls =
        (map (\<lambda>(now, cnt). Some (lastRefill rl + interval rl - now)) calls, rl)"
  using assms by (simp add: removeTokens_wait remove_all_wait algebra_simps)

theorem removeTokens_wait_path_witness:
  "removeTokens \<lparr>tokens = 0, lastRefill = 0, tokensPerInterval = 2, interval = 60000\<rparr> 100 1 =
     (Some 59900, \<lparr>tokens = 0, lastRefill = 0, tokensPerInterval = 2, interval = 60000\<rparr>)
   \<and> remove_all \<lparr>tokens = 0, lastRefill = 0, tokensPerInterval = 2, interval = 60000\<rparr>
        [(100, 1), (200, 1), (300, 1)] =
     ([Some 59900, Some 59800, Some 59700],
      \<lparr>tokens = 0, lastRefill = 0, tokensPerInterval = 2, interval = 60000\<rparr>)"
  using removeTokens_wait_path
    [of "\<lparr>tokens = 0, lastRefill = 0, tokensPerInterval = 2, interval = 60000\<rparr>" 1 100
        "[(100, 1), (200, 1), (300, 1)]"]
  by (simp del: remove_all.simps)

section \<open>The empty batch\<close>

text \<open>
  Claim C10. On the empty list of requests \<open>batchCulturalAudit\<close> returns \<open>success: true\<close>
  with \<open>totalProcessed\<close> 0; the average is the quotient of the accumulated score 0 by the
  number of requests 0, computed without a guard, which is \<open>NaN\<close>.
\<close>

theorem batch_empty_average:
  "batchCulturalAudit ext cl [] =
     (\<lparr>success = True, results = [],
       summary = \<lparr>totalProcessed = 0, avgComplianceScore = js_divide 0 0, criticalIssuesCount = 0,
                  summary_processingTime = 0\<rparr>\<rparr>, cl)
   \<and> js_divide 0 0 = NaN"
  by (simp add: batchCulturalAudit_def js_divide_def)

section \<open>Eviction order of the cache\<close>

lemma map_set_fresh: "k \<notin> fst ` set es \<Longrightarrow> map_set k v es = es @ [(k, v)]"
  by (induction es) auto

lemma map_delete_keys: "map fst (map_delete k es) = filter (\<lambda>x. x \<noteq> k) (map fst es)"
  by (induction es) (auto simp: map_delete_def)

lemma map_delete_head:
  "distinct (map fst (e # es)) \<Longrightarrow> map_delete (fst e) (e # es) = es"
  by (auto simp: map_delete_def filter_id_conv rev_image_eqI)

lemma evict_below: "int (length es) < cap \<Longrightarrow> evict cap es = es"
  by (cases es) auto

lemma evict_full:
  assumes "distinct (map fst es)" "int (length es) = cap" "1 \<le> cap"
  shows "evict cap es = tl es"
proof (cases es)
  case Nil
  with assms show ?thesis by simp
next
  case (Cons e es')
  with assms have "map_delete (fst e) (e # es') = es'"
    using map_delete_head by blast
  moreover from Cons assms have "int (length es') < cap" by simp
  ultimately show ?thesis using Cons assms by (simp add: evict_below)
qed

lemma cache_get_hit:
  assumes "map_of (cache c) k = Some item" "now - item_timestamp item \<le> ttl c"
  shows "cache_get c now k =
     (Some (item_value item),
      c\<lparr>cache := map_delete k (cache c) @ [(k, item\<lparr>accessCount := accessCount item + 1\<rparr>)]\<rparr>)"
proof -
  have "k \<notin> fst ` set (map_delete k (cache c))"
    by (auto simp: map_delete_def)
  then show ?thesis
    using assms by (simp add: cache_get_def Let_def map_set_fresh)
qed


lemma map_delete_lookup: "map_of (map_delete k es) k = None"
  by (induction es) (auto simp: map_delete_def)

lemma map_delete_length:
  "distinct (map fst es) \<Longrightarrow> map_of es k = Some item \<Longrightarrow> Suc (length (map_delete k es)) = length es"
proof (induction es)
  case Nil
  then show ?case by simp
next
  case (Cons e es)
  show ?case
  proof (cases "fst e = k")
    case True
    with Cons.prems(1) have "map_delete k (e # es) = es"
      using map_delete_head by blast
    then show ?thesis by simp
  next
    case False
    with Cons show ?thesis by (cases e) (auto simp: map_delete_def)
  qed
qed

lemma cache_set_full:
  assumes "distinct (cache_keys c)" "int (length (cache c)) = maxSize c" "1 \<le> maxSize c"
    and "k' \<notin> set (cache_keys c)"
  shows "cache_keys (cache_set c now k' v) = tl (cache_keys c) @ [k']"
proof -
  have ev: "evict (maxSize c) (cache c) = tl (cache c)"
    using assms(1-3) by (simp add: evict_full cache_keys_def)
  have "k' \<notin> fst ` set (tl (cache c))"
    using assms(4) by (cases "cache c") (auto simp: cache_keys_def)
  then show ?thesis
    by (simp add: cache_set_def ev map_set_fresh cache_keys_def map_tl)
qed

lemma cache_get_then_set:
  assumes "distinct (cache_keys c)" and "int (length (cache c)) = maxSize c" and "1 \<le> maxSize c"
    and "map_of (cache c) k = Some item" and "now - item_timestamp item \<le> ttl c"
    and "k' \<notin> set (cache_keys c)"
  shows "cache_keys (cache_set c now' k' v) = tl (cache_keys c) @ [k']
    \<and> fst (cache_get c now k) = Some (item_value item)
    \<and> cache_keys (snd (cache_get c now k)) = filter (\<lambda>x. x \<noteq> k) (cache_keys c) @ [k]
    \<and> map_of (cache (snd (cache_get c now k))) k = Some (item\<lparr>accessCount := accessCount item + 1\<rparr>)
    \<and> cache_keys (cache_set (snd (cache_get c now k)) now' k' v) =
        tl (filter (\<lambda>x. x \<noteq> k) (cache_keys c) @ [k]) @ [k']"
proof -
  let ?c' = "snd (cache_get c now k)"
  have hit: "cache_get c now k =
     (Some (item_value item),
      c\<lparr>cache := map_delete k (cache c) @ [(k, item\<lparr>accessCount := accessCount item + 1\<rparr>)]\<rparr>)"
    using assms(4,5) by (rule cache_get_hit)
  have keys': "cache_keys ?c' = filter (\<lambda>x. x \<noteq> k) (cache_keys c) @ [k]"
    by (simp add: hit cache_keys_def map_delete_keys)
  have d': "distinct (cache_keys ?c')"
    using assms(1) by (simp add: keys')
  have len': "int (length (cache ?c')) = maxSize ?c'"
    using map_delete_length [OF assms(1) [unfolded cache_keys_def] assms(4)] assms(2)
    by (simp add: hit)
  have m': "1 \<le> maxSize ?c'"
    using assms(3) by (simp add: hit)
  have fresh': "k' \<notin> set (cache_keys ?c')"
  proof -
    have "k \<in> set (cache_keys c)"
      using assms(4) by (auto simp: cache_keys_def dest: map_of_SomeD intro: rev_image_eqI)
    with assms(6) show ?thesis by (auto simp: keys')
  qed
  have look: "map_of (cache ?c') k = Some (item\<lparr>accessCount := accessCount item + 1\<rparr>)"
    by (simp add: hit map_add_Some_iff map_delete_lookup)
  have "cache_keys (cache_set ?c' now' k' v) = tl (cache_keys ?c') @ [k']"
    using d' len' m' fresh' by (rule cache_set_full)
  then show ?thesis
    using cache_set_full [OF assms(1-3,6)] keys' look by (simp add: hit)
qed

text \<open>
  Claim C2, as the code has it. On a cache filled to capacity, the next \<open>set\<close> of a fresh key
  evicts the first entry of the map's current order and no other. A successful \<open>get\<close>
  returns the value, increments the access counter of the entry and moves the entry to the
  end of that order, so it does change which entry is evicted next. After a successful
  \<open>get\<close>, the next \<open>set\<close> of a fresh key evicts the first of the other entries when the
  capacity is at least 2, and the entry that was read stays; when the capacity is 1, the
  entry that was read is the one evicted.
\<close>

theorem cache_eviction_after_get:
  assumes "distinct (cache_keys c)" and "int (length (cache c)) = maxSize c" and "1 \<le> maxSize c"
    and "map_of (cache c) k = Some item" and "now - item_timestamp item \<le> ttl c"
    and "k' \<notin> set (cache_keys c)"
  shows "cache_keys (cache_set c now' k' v) = tl (cache_keys c) @ [k']
    \<and> fst (cache_get c now k) = Some (item_value item)
    \<and> cache_keys (snd (cache_get c now k)) = filter (\<lambda>x. x \<noteq> k) (cache_keys c) @ [k]
    \<and> map_of (cache (snd (cache_get c now k))) k = Some (item\<lparr>accessCount := accessCount item + 1\<rparr>)
    \<and> cache_keys (cache_set (snd (cache_get c now k)) now' k' v) =
        tl (filter (\<lambda>x. x \<noteq> k) (cache_keys c) @ [k]) @ [k']
    \<and> (2 \<le> maxSize c \<longrightarrow>
          cache_keys (cache_set (snd (cache_get c now k)) now' k' v) =
            tl (filter (\<lambda>x. x \<noteq> k) (cache_keys c)) @ [k, k']
          \<and> hd (filter (\<lambda>x. x \<noteq> k) (cache_keys c)) \<in> set (cache_keys c)
          \<and> hd (filter (\<lambda>x. x \<noteq> k) (cache_keys c)) \<noteq> k
          \<and> hd (filter (\<lambda>x. x \<noteq> k) (cache_keys c))
              \<notin> set (cache_keys (cache_set (snd (cache_get c now k)) now' k' v)))
    \<and> (maxSize c = 1 \<longrightarrow>
          cache_keys (cache_set (snd (cache_get c now k)) now' k' v) = [k'])"
proof -
  let ?rest = "filter (\<lambda>x. x \<noteq> k) (cache_keys c)"
  note base = cache_get_then_set [OF assms, of now' v]
  then have after: "cache_keys (cache_set (snd (cache_get c now k)) now' k' v) = tl (?rest @ [k]) @ [k']"
    by simp
  have len: "Suc (length ?rest) = length (cache_keys c)"
    using map_delete_length [OF assms(1) [unfolded cache_keys_def] assms(4)]
    by (simp add: cache_keys_def map_delete_keys [symmetric])
  have lk: "int (length (cache_keys c)) = maxSize c"
    using assms(2) by (simp add: cache_keys_def)
  have two: "cache_keys (cache_set (snd (cache_get c now k)) now' k' v) = tl ?rest @ [k, k']
      \<and> hd ?rest \<in> set (cache_keys c) \<and> hd ?rest \<noteq> k
      \<and> hd ?rest \<notin> set (cache_keys (cache_set (snd (cache_get c now k)) now' k' v))"
    if "2 \<le> maxSize c"
  proof -
    from that lk len have "0 < length ?rest" by linarith
    then have ne: "?rest \<noteq> []" by auto
    then have mem: "hd ?rest \<in> set ?rest" by (rule hd_in_set)
    have sub: "set ?rest = {x \<in> set (cache_keys c). x \<noteq> k}" by simp
    from mem sub have in_keys: "hd ?rest \<in> set (cache_keys c)" and nk: "hd ?rest \<noteq> k"
      by blast+
    from in_keys assms(6) have nk': "hd ?rest \<noteq> k'" by auto
    have "distinct ?rest" using assms(1) by simp
    with ne have "hd ?rest \<notin> set (tl ?rest)" by (cases ?rest) auto
    with ne nk nk' in_keys show ?thesis by (simp add: after)
  qed
  have one: "cache_keys (cache_set (snd (cache_get c now k)) now' k' v) = [k']"
    if "maxSize c = 1"
  proof -
    from that lk len have "length ?rest = 0" by linarith
    then have "?rest = []" by auto
    then show ?thesis by (simp add: after)
  qed
  from base two one show ?thesis by blast
qed

text \<open>
  Capacity 2 with \<open>a\<close> and \<open>b\<close>: after \<open>a\<close> is read, setting \<open>c\<close> evicts \<open>b\<close>.
  Capacity 1 with \<open>a\<close>: after \<open>a\<close> is read, setting \<open>c\<close> evicts \<open>a\<close>.
\<close>

theorem cache_eviction_after_get_witness:
  "cache_keys (cache_set (snd (cache_get \<lparr>cache = [(''a'', \<lparr>item_value = 1::nat, item_timestamp = 0, accessCount = 1\<rparr>),
                (''b'', \<lparr>item_value = 2, item_timestamp = 1, accessCount = 1\<rparr>)],
       maxSize = 2, ttl = 300000\<rparr> 2 ''a'')) 3 ''c'' 3) = [''a'', ''c'']
   \<and> map_of (cache (snd (cache_get \<lparr>cache = [(''a'', \<lparr>item_value = 1::nat, item_timestamp = 0, accessCount = 1\<rparr>),
                (''b'', \<lparr>item_value = 2, item_timestamp = 1, accessCount = 1\<rparr>)],
       maxSize = 2, ttl = 300000\<rparr> 2 ''a''))) ''a'' =
       Some \<lparr>item_value = 1, item_timestamp = 0, accessCount = 2\<rparr>
   \<and> ''b'' \<notin> set (cache_keys (cache_set (snd (cache_get \<lparr>cache = [(''a'', \<lparr>item_value = 1::nat, item_timestamp = 0, accessCount = 1\<rparr>),
                (''b'', \<lparr>item_value = 2, item_timestamp = 1, accessCount = 1\<rparr>)],
       maxSize = 2, ttl = 300000\<rparr> 2 ''a'')) 3 ''c'' 3))
   \<and> cache_keys (cache_set (snd (cache_get \<lparr>cache = [(''a'', \<lparr>item_value = 1::nat, item_timestamp = 0, accessCount = 1\<rparr>)],
       maxSize = 1, ttl = 300000\<rparr> 2 ''a'')) 3 ''c'' 3) = [''c'']"
proof -
  note two = cache_eviction_after_get
    [of "\<lparr>cache = [(''a'', \<lparr>item_value = 1::nat, item_timestamp = 0, accessCount = 1\<rparr>),
                (''b'', \<lparr>item_value = 2, item_timestamp = 1, accessCount = 1\<rparr>)],
       maxSize = 2, ttl = 300000\<rparr>" "''a''" "\<lparr>item_value = 1::nat, item_timestamp = 0, accessCount = 1\<rparr>" 2 "''c''" 3 3]
  note one = cache_eviction_after_get
    [of "\<lparr>cache = [(''a'', \<lparr>item_value = 1::nat, item_timestamp = 0, accessCount = 1\<rparr>)],
       maxSize = 1, ttl = 300000\<rparr>" "''a''" "\<lparr>item_value = 1::nat, item_timestamp = 0, accessCount = 1\<rparr>" 2 "''c''" 3 3]
  from two have "cache_keys (cache_set (snd (cache_get \<lparr>cache = [(''a'', \<lparr>item_value = 1::nat, item_timestamp = 0, accessCount = 1\<rparr>),
                (''b'', \<lparr>item_value = 2, item_timestamp = 1, accessCount = 1\<rparr>)],
       maxSize = 2, ttl = 300000\<rparr> 2 ''a'')) 3 ''c'' 3) = [''a'', ''c'']
     \<and> map_of (cache (snd (cache_get \<lparr>cache = [(''a'', \<lparr>item_value = 1::nat, item_timestamp = 0, accessCount = 1\<rparr>),
                (''b'', \<lparr>item_value = 2, item_timestamp = 1, accessCount = 1\<rparr>)],
       maxSize = 2, ttl = 300000\<rparr> 2 ''a''))) ''a'' =
       Some \<lparr>item_value = 1, item_timestamp = 0, accessCount = 2\<rparr>
     \<and> ''b'' \<notin> set (cache_keys (cache_set (snd (cache_get \<lparr>cache = [(''a'', \<lparr>item_value = 1::nat, item_timestamp = 0, accessCount = 1\<rparr>),
                (''b'', \<lparr>item_value = 2, item_timestamp = 1, accessCount = 1\<rparr>)],
       maxSize = 2, ttl = 300000\<rparr> 2 ''a'')) 3 ''c'' 3))"
    by (simp add: cache_keys_def)
  moreover from one have "cache_keys (cache_set (snd (cache_get \<lparr>cache = [(''a'', \<lparr>item_value = 1::nat, item_timestamp = 0, accessCount = 1\<rparr>)],
       maxSize = 1, ttl = 300000\<rparr> 2 ''a'')) 3 ''c'' 3) = [''c'']"
    by (simp add: cache_keys_def)
  ultimately show ?thesis by blast
qed

text \<open>
  A cache of capacity 2 receives \<open>a\<close>, then \<open>b\<close>; \<open>a\<close> is read; \<open>c\<close> is set. The entry
  evicted is \<open>b\<close>, and \<open>a\<close>, the oldest inserted, stays.
\<close>

theorem cache_fifo_counterexample:
  "fst (cache_get (cache_set (cache_set (LRUCache_new 2 300000) 0 ''a'' (1::nat)) 1 ''b'' 2) 2 ''a'') = Some 1
   \<and> cache_keys (cache_set (cache_set (LRUCache_new 2 300000) 0 ''a'' (1::nat)) 1 ''b'' 2) = [''a'', ''b'']
   \<and> cache_keys (cache_set
        (snd (cache_get (cache_set (cache_set (LRUCache_new 2 300000) 0 ''a'' (1::nat)) 1 ''b'' 2) 2 ''a''))
        3 ''c'' 3) = [''a'', ''c'']"
  by (simp add: LRUCache_new_def cache_set_def cache_get_def cache_keys_def map_delete_def)



section \<open>Transitions of the circuit breaker\<close>



lemma admit_not_open: "state cb \<noteq> Open \<Longrightarrow> admit cb now = Some cb"
  by (simp add: admit_def)




















section \<open>Monotonicity of the score\<close>

lemma fold_set_add: "set (fold set_add xs rs) = set rs \<union> set xs"
  by (induction xs arbitrary: rs) (auto simp: set_add_def)

lemma score_loop_total:
  "fst (score_loop m fs (t0, r0)) =
     t0 + sum_list (map (\<lambda>b. severityMultiplier m (severity b) * confidence b) fs)"
  by (induction fs arbitrary: t0 r0) (simp_all add: algebra_simps)

lemma score_loop_regulations:
  "set (snd (score_loop m fs (t0, r0))) = set r0 \<union> (\<Union>b\<in>set fs. set (regulation_risk b))"
  by (induction fs arbitrary: t0 r0) (auto simp: fold_set_add)

lemma score_with_alt:
  "score_with cfg fs =
     score_of cfg (sum_list (map (\<lambda>b. severityMultiplier (mode cfg) (severity b) * confidence b) fs))
       (snd (score_loop (mode cfg) fs (0, [])))"
  using score_loop_total [of "mode cfg" fs 0 "[]"]
  by (cases "score_loop (mode cfg) fs (0, [])") (simp add: score_with_exact)

lemma severityMultiplier_nonneg: "0 \<le> severityMultiplier m s"
  by (cases m; cases s) (simp_all add: severityMultiplier_def)

lemma severityMultiplier_modes: "severityMultiplier Hackathon s \<le> severityMultiplier Production s"
  by (cases s) (simp_all add: severityMultiplier_def)

lemma penalty_nonneg:
  "0 \<le> pen_euAiAct (regulationPenalty m)" "0 \<le> pen_section508 (regulationPenalty m)"
  "0 \<le> pen_gdpr (regulationPenalty m)"
  by (cases m; simp add: regulationPenalty_def)+

lemma penalty_modes:
  "pen_euAiAct (regulationPenalty Hackathon) \<le> pen_euAiAct (regulationPenalty Production)"
  "pen_section508 (regulationPenalty Hackathon) \<le> pen_section508 (regulationPenalty Production)"
  "pen_gdpr (regulationPenalty Hackathon) \<le> pen_gdpr (regulationPenalty Production)"
  by (simp_all add: regulationPenalty_def)

lemma hasRegulationRisk_mono:
  "set r1 \<subseteq> set r2 \<Longrightarrow> hasRegulationRisk r1 t \<Longrightarrow> hasRegulationRisk r2 t"
  by (auto simp: hasRegulationRisk_def list_ex_iff)

lemma bucket_score_mono:
  assumes "b2 \<le> b1" "0 \<le> b1" "p1 \<le> p2" "0 \<le> p2" "risk1 \<Longrightarrow> risk2"
  shows "bucket_score risk2 b2 p2 \<le> bucket_score risk1 b1 p1"
  using assms by (auto simp: bucket_score_exact)

lemma overall_mono:
  assumes "t1 \<le> t2" "set r1 \<subseteq> set r2"
    and "mode c1 = mode c2 \<or> mode c1 = Hackathon \<and> mode c2 = Production"
  shows "overallScore (score_of c2 t2 r2) \<le> overallScore (score_of c1 t1 r1)"
proof -
  let ?b1 = "max 0 (100 - t1)" and ?b2 = "max 0 (100 - t2)"
  have b: "?b2 \<le> ?b1" "0 \<le> ?b1" using assms(1) by auto
  have p: "pen_euAiAct (regulationPenalty (mode c1)) \<le> pen_euAiAct (regulationPenalty (mode c2))"
    "pen_section508 (regulationPenalty (mode c1)) \<le> pen_section508 (regulationPenalty (mode c2))"
    "pen_gdpr (regulationPenalty (mode c1)) \<le> pen_gdpr (regulationPenalty (mode c2))"
    using assms(3) penalty_modes by auto
  note r = hasRegulationRisk_mono [OF assms(2)]
  have "bucket_score (hasRegulationRisk r2 euAiActRegulations) ?b2 (pen_euAiAct (regulationPenalty (mode c2)))
      \<le> bucket_score (hasRegulationRisk r1 euAiActRegulations) ?b1 (pen_euAiAct (regulationPenalty (mode c1)))"
    by (rule bucket_score_mono [OF b p(1) penalty_nonneg(1) r])
  moreover have "bucket_score (hasRegulationRisk r2 section508Regulations) ?b2
        (pen_section508 (regulationPenalty (mode c2)))
      \<le> bucket_score (hasRegulationRisk r1 section508Regulations) ?b1
        (pen_section508 (regulationPenalty (mode c1)))"
    by (rule bucket_score_mono [OF b p(2) penalty_nonneg(2) r])
  moreover have "bucket_score (hasRegulationRisk r2 gdprRegulations) ?b2 (pen_gdpr (regulationPenalty (mode c2)))
      \<le> bucket_score (hasRegulationRisk r1 gdprRegulations) ?b1 (pen_gdpr (regulationPenalty (mode c1)))"
    by (rule bucket_score_mono [OF b p(3) penalty_nonneg(3) r])
  ultimately show ?thesis
    by (simp add: score_of_exact Let_def min_le_iff_disj)
qed

lemma sum_list_mset_eq:
  fixes f :: "'a \<Rightarrow> rat"
  shows "mset xs = mset ys \<Longrightarrow> sum_list (map f xs) = sum_list (map f ys)"
  by (metis mset_map sum_mset_sum_list)

subsection \<open>The confidence of a finding\<close>

lemma calculateConfidence_bounds:
  "7 / 10 \<le> calculateConfidence ms t ty" "calculateConfidence ms t ty \<le> 1"
proof -
  have "0 \<le> min (of_nat (length ms) * (1 / 10)) (2 / 10 :: rat)" by simp
  moreover have "0 \<le> (of_nat k :: rat) * (5 / 100)" for k by simp
  ultimately show "7 / 10 \<le> calculateConfidence ms t ty"
    unfolding calculateConfidence_def Let_def by (auto simp: min_def add_nonneg_nonneg)
  show "calculateConfidence ms t ty \<le> 1"
    by (simp add: calculateConfidence_def Let_def)
qed

lemma detect_rule_confidence:
  assumes "detect_rule cfg t r = Some b"
  shows "0 \<le> confidence b \<and> confidence b \<le> 1"
proof -
  let ?ms = "match_global (rule_pattern r) t"
  let ?c = "calculateConfidence ?ms t (rule_type r)"
  have "0 \<le> ?c" using calculateConfidence_bounds(1) [of ?ms t "rule_type r"] by simp
  then have "0 \<le> ?c * (8 / 10)" "0 \<le> ?c * (11 / 10)" by simp_all
  with \<open>0 \<le> ?c\<close> assms show ?thesis
    by (auto simp: detect_rule_def Let_def finding_of_def split: if_splits env_mode.splits)
qed

lemma scan_rules_set:
  "b \<in> set (scan_rules cfg t rs) \<Longrightarrow> \<exists>r\<in>set rs. detect_rule cfg t r = Some b"
  by (induction rs) (auto split: option.splits)

lemma detect_with_confidence:
  "b \<in> set (detect_with cfg text) \<Longrightarrow> 0 \<le> confidence b \<and> confidence b \<le> 1"
  by (auto simp: detect_with_def dest!: scan_rules_set detect_rule_confidence)

subsection \<open>Additional findings under rounding\<close>

lemma rounding_mono: "rounding rnd \<Longrightarrow> x \<le> y \<Longrightarrow> rnd x \<le> rnd y"
  by (simp add: rounding_def mono_def)

lemma rounding_idem: "rounding rnd \<Longrightarrow> rnd (rnd x) = rnd x"
  by (simp add: rounding_def)

lemma rounding_zero: "rounding rnd \<Longrightarrow> rnd 0 = 0"
  by (simp add: rounding_def)

lemma rounding_exact: "rounding (\<lambda>x. x)"
  by (simp add: rounding_def mono_def)

lemma inserted_set: "inserted P xs ys \<Longrightarrow> set xs \<subseteq> set ys"
  by (induction rule: inserted.induct) auto

lemma inserted_append: "list_all P extra \<Longrightarrow> inserted P xs (xs @ extra)"
proof (induction xs)
  case Nil
  then show ?case by (induction extra) (auto intro: inserted.intros)
next
  case (Cons x xs)
  then show ?case by (auto intro: inserted.intros)
qed

lemma score_loop_fl_regulations:
  "set (snd (score_loop_fl rnd m fs (t0, r0))) = set r0 \<union> (\<Union>b\<in>set fs. set (regulation_risk b))"
  by (induction fs arbitrary: t0 r0) (auto simp: fold_set_add)

lemma score_loop_fl_total:
  assumes "rounding rnd" and "inserted (\<lambda>b. 0 \<le> confidence b) F1 F2"
    and "t1 \<le> t2" and "rnd t2 = t2"
  shows "fst (score_loop_fl rnd m F1 (t1, r1)) \<le> fst (score_loop_fl rnd m F2 (t2, r2))"
  using assms(2,3,4)
proof (induction arbitrary: t1 t2 r1 r2 rule: inserted.induct)
  case inserted_Nil
  then show ?case by simp
next
  case (inserted_keep xs ys x)
  let ?w = "rnd (severityMultiplier m (severity x) * confidence x)"
  from inserted_keep.prems(1) have "rnd (t1 + ?w) \<le> rnd (t2 + ?w)"
    by (intro rounding_mono [OF assms(1)]) simp
  moreover have "rnd (rnd (t2 + ?w)) = rnd (t2 + ?w)"
    by (rule rounding_idem [OF assms(1)])
  ultimately show ?case
    using inserted_keep.IH by simp
next
  case (inserted_add y xs ys)
  let ?w = "rnd (severityMultiplier m (severity y) * confidence y)"
  have "0 \<le> severityMultiplier m (severity y) * confidence y"
    using inserted_add.hyps(1) by (intro mult_nonneg_nonneg severityMultiplier_nonneg)
  then have "rnd 0 \<le> ?w" by (rule rounding_mono [OF assms(1)])
  then have "0 \<le> ?w" by (simp add: rounding_zero [OF assms(1)])
  then have "rnd t2 \<le> rnd (t2 + ?w)"
    by (intro rounding_mono [OF assms(1)]) simp
  with inserted_add.prems have "t1 \<le> rnd (t2 + ?w)" by simp
  moreover have "rnd (rnd (t2 + ?w)) = rnd (t2 + ?w)"
    by (rule rounding_idem [OF assms(1)])
  ultimately show ?case
    using inserted_add.IH by simp
qed

lemma bucket_score_fl_mono:
  assumes "rounding rnd" "b2 \<le> b1" "0 \<le> b1" "rnd b1 = b1" "0 \<le> p" "risk1 \<Longrightarrow> risk2"
  shows "bucket_score_fl rnd risk2 b2 p \<le> bucket_score_fl rnd risk1 b1 p"
proof -
  have a: "rnd (b2 - p) \<le> rnd (b1 - p)"
    using assms(2) by (intro rounding_mono [OF assms(1)]) simp
  have "rnd (b2 - p) \<le> rnd b1"
    using assms(2,5) by (intro rounding_mono [OF assms(1)]) simp
  then have b: "rnd (b2 - p) \<le> b1" by (simp add: assms(4))
  from a b assms(2,3,6) show ?thesis
    by (auto simp: bucket_score_fl_def)
qed

lemma overall_fl_mono:
  assumes "rounding rnd" "t1 \<le> t2" "set r1 \<subseteq> set r2"
  shows "overallScore (score_of_fl rnd cfg t2 r2) \<le> overallScore (score_of_fl rnd cfg t1 r1)"
proof -
  let ?b1 = "max 0 (rnd (100 - t1))" and ?b2 = "max 0 (rnd (100 - t2))"
  have "rnd (100 - t2) \<le> rnd (100 - t1)"
    using assms(2) by (intro rounding_mono [OF assms(1)]) simp
  then have b: "?b2 \<le> ?b1" by auto
  have z: "0 \<le> ?b1" by simp
  have i: "rnd ?b1 = ?b1"
    by (simp add: max_def rounding_idem [OF assms(1)] rounding_zero [OF assms(1)])
  note r = hasRegulationRisk_mono [OF assms(3)]
  note bm = bucket_score_fl_mono [OF assms(1) b z i]
  have "bucket_score_fl rnd (hasRegulationRisk r2 euAiActRegulations) ?b2 (pen_euAiAct (regulationPenalty (mode cfg)))
      \<le> bucket_score_fl rnd (hasRegulationRisk r1 euAiActRegulations) ?b1 (pen_euAiAct (regulationPenalty (mode cfg)))"
    by (rule bm [OF penalty_nonneg(1) r])
  moreover have "bucket_score_fl rnd (hasRegulationRisk r2 section508Regulations) ?b2
        (pen_section508 (regulationPenalty (mode cfg)))
      \<le> bucket_score_fl rnd (hasRegulationRisk r1 section508Regulations) ?b1
        (pen_section508 (regulationPenalty (mode cfg)))"
    by (rule bm [OF penalty_nonneg(2) r])
  moreover have "bucket_score_fl rnd (hasRegulationRisk r2 gdprRegulations) ?b2 (pen_gdpr (regulationPenalty (mode cfg)))
      \<le> bucket_score_fl rnd (hasRegulationRisk r1 gdprRegulations) ?b1 (pen_gdpr (regulationPenalty (mode cfg)))"
    by (rule bm [OF penalty_nonneg(3) r])
  ultimately show ?thesis
    by (simp add: score_of_fl_def Let_def min_le_iff_disj)
qed

text \<open>A rounding other than the identity: down to the next multiple of 1/1024.\<close>

lemma rounding_grid: "rounding (\<lambda>x. of_int \<lfloor>x * 1024\<rfloor> / 1024)"
proof -
  have "of_int \<lfloor>x * 1024\<rfloor> / (1024 :: rat) \<le> of_int \<lfloor>y * 1024\<rfloor> / 1024" if "x \<le> y" for x y :: rat
    using that by (intro divide_right_mono) (auto intro: floor_mono)
  then show ?thesis
    by (simp add: rounding_def mono_def)
qed

text \<open>
  Claim C4. For every configuration: if the list \<open>F2\<close> is \<open>F1\<close> with additional findings
  put in at any places, the findings of \<open>F1\<close> keeping their order, and the confidence of
  each additional finding is not negative, then the overall score of \<open>F2\<close> is at most that
  of \<open>F1\<close>. The scores are computed with rounded arithmetic, for every rounding that is
  monotone and leaves the numbers it returns, and 0, as they are; rounding to the nearest
  double is one, exact arithmetic another. A finding's confidence lies between 0 and 1; every
  finding the detector returns has such a confidence (lemma \<open>detect_with_confidence\<close>).
  The order matters: a sum of doubles depends on the order of its terms, so a rearrangement
  of the findings of \<open>F1\<close> is not an extension in this sense.
\<close>

theorem adding_findings_never_raises_score:
  assumes "rounding rnd"
    and "inserted (\<lambda>b. 0 \<le> confidence b) F1 F2"
    and "calculateComplianceScore_fl rnd (Some cfg) F1 = Inr s1"
    and "calculateComplianceScore_fl rnd (Some cfg) F2 = Inr s2"
  shows "overallScore s2 \<le> overallScore s1"
proof -
  obtain t1 r1 where l1: "score_loop_fl rnd (mode cfg) F1 (0, []) = (t1, r1)"
    by (cases "score_loop_fl rnd (mode cfg) F1 (0, [])") auto
  obtain t2 r2 where l2: "score_loop_fl rnd (mode cfg) F2 (0, []) = (t2, r2)"
    by (cases "score_loop_fl rnd (mode cfg) F2 (0, [])") auto
  have "rnd 0 = 0" by (rule rounding_zero [OF assms(1)])
  with score_loop_fl_total [OF assms(1,2), of 0 0 "mode cfg" "[]" "[]"] l1 l2
  have t: "t1 \<le> t2" by simp
  from inserted_set [OF assms(2)]
    score_loop_fl_regulations [of rnd "mode cfg" F1 0 "[]"]
    score_loop_fl_regulations [of rnd "mode cfg" F2 0 "[]"] l1 l2
  have r: "set r1 \<subseteq> set r2" by auto
  from assms(3,4) l1 l2
  have "s1 = score_of_fl rnd cfg t1 r1" "s2 = score_of_fl rnd cfg t2 r2"
    by (simp_all add: calculateComplianceScore_fl_def score_with_fl_def)
  with overall_fl_mono [OF assms(1) t r] show ?thesis by simp
qed

text \<open>
  Under the Production configuration, rounding down to multiples of 1/1024: the finding of
  \<open>guys\<close> put in before the finding of \<open>young\<close> does not raise the score.
\<close>

theorem adding_findings_never_raises_score_witness:
  "overallScore (score_with_fl (\<lambda>x. of_int \<lfloor>x * 1024\<rfloor> / 1024) DEFAULT_PRODUCTION_CONFIG
      [finding_of guys_only [js ''guys''] (22 / 25), finding_of age_proxy [js ''young''] (22 / 25)])
   \<le> overallScore (score_with_fl (\<lambda>x. of_int \<lfloor>x * 1024\<rfloor> / 1024) DEFAULT_PRODUCTION_CONFIG
      [finding_of age_proxy [js ''young''] (22 / 25)])"
proof -
  have c: "0 \<le> confidence (finding_of guys_only [js ''guys''] (22 / 25))"
    by (simp add: finding_of_def)
  have i: "inserted (\<lambda>b. 0 \<le> confidence b)
      [finding_of age_proxy [js ''young''] (22 / 25)]
      [finding_of guys_only [js ''guys''] (22 / 25), finding_of age_proxy [js ''young''] (22 / 25)]"
    by (intro inserted_add inserted_keep inserted_Nil c)
  show ?thesis
    by (rule adding_findings_never_raises_score [OF rounding_grid i])
       (simp_all add: calculateComplianceScore_fl_def)
qed


section \<open>Production against Hackathon\<close>

text \<open>
  One rule under both default configurations: a finding under Hackathon has a finding of
  the same rule under Production whose deduction is at least as large; a finding under
  Production alone deducts a non-negative amount.
\<close>

lemma rule_compare:
  assumes "Strict \<in> set (detectionLevel r)"
  shows "case detect_rule DEFAULT_HACKATHON_CONFIG t r of
           None \<Rightarrow> (case detect_rule DEFAULT_PRODUCTION_CONFIG t r of
                      None \<Rightarrow> True
                    | Some bp \<Rightarrow> 0 \<le> severityMultiplier Production (severity bp) * confidence bp)
         | Some bh \<Rightarrow>
             (case detect_rule DEFAULT_PRODUCTION_CONFIG t r of
                None \<Rightarrow> False
              | Some bp \<Rightarrow>
                  severityMultiplier Hackathon (severity bh) * confidence bh
                    \<le> severityMultiplier Production (severity bp) * confidence bp
                  \<and> regulation_risk bh = regulation_risk bp)"
proof -
  let ?ms = "match_global (rule_pattern r) t"
  let ?c = "calculateConfidence ?ms t (rule_type r)"
  have c: "0 \<le> ?c" "?c \<le> 1"
    using calculateConfidence_bounds [of ?ms t "rule_type r"] by simp_all
  have mP: "mode DEFAULT_PRODUCTION_CONFIG = Production"
    "biasDetectionLevel DEFAULT_PRODUCTION_CONFIG = Strict"
    by (simp_all add: DEFAULT_PRODUCTION_CONFIG_def)
  have mH: "mode DEFAULT_HACKATHON_CONFIG = Hackathon"
    by (simp add: DEFAULT_HACKATHON_CONFIG_def)
  show ?thesis
  proof (cases "?ms = []")
    case True
    then show ?thesis by (simp add: detect_rule_no_match)
  next
    case False
    have P: "detect_rule DEFAULT_PRODUCTION_CONFIG t r =
        Some (finding_of r (map toLowerCase ?ms) (min (?c * (11 / 10)) 1))"
      using assms False by (intro detect_rule_production) (simp_all add: mP)
    have pos: "0 \<le> severityMultiplier Production (rule_severity r) * min (?c * (11 / 10)) 1"
      using c by (intro mult_nonneg_nonneg severityMultiplier_nonneg) simp
    show ?thesis
    proof (cases "biasDetectionLevel DEFAULT_HACKATHON_CONFIG \<in> set (detectionLevel r)")
      case False
      then show ?thesis
        using pos by (simp add: detect_rule_inactive P finding_of_def)
    next
      case True
      let ?h = "min (if rule_severity r = Low \<or> rule_severity r = Medium then ?c * (8 / 10) else ?c) 1"
      have H: "detect_rule DEFAULT_HACKATHON_CONFIG t r = Some (finding_of r (map toLowerCase ?ms) ?h)"
        using True \<open>?ms \<noteq> []\<close> by (intro detect_rule_hackathon) (simp_all add: mH)
      have "?h \<le> min (?c * (11 / 10)) 1" "0 \<le> ?h"
        using c by (auto simp: min_def)
      then have "severityMultiplier Hackathon (rule_severity r) * ?h
          \<le> severityMultiplier Production (rule_severity r) * min (?c * (11 / 10)) 1"
        by (intro mult_mono severityMultiplier_modes severityMultiplier_nonneg)
      then show ?thesis
        by (simp add: H P finding_of_def)
    qed
  qed
qed

lemma scan_compare:
  assumes "\<forall>r\<in>set rs. Strict \<in> set (detectionLevel r)"
  shows "sum_list (map (\<lambda>b. severityMultiplier Hackathon (severity b) * confidence b)
            (scan_rules DEFAULT_HACKATHON_CONFIG t rs))
       \<le> sum_list (map (\<lambda>b. severityMultiplier Production (severity b) * confidence b)
            (scan_rules DEFAULT_PRODUCTION_CONFIG t rs))
     \<and> (\<Union>b\<in>set (scan_rules DEFAULT_HACKATHON_CONFIG t rs). set (regulation_risk b))
       \<subseteq> (\<Union>b\<in>set (scan_rules DEFAULT_PRODUCTION_CONFIG t rs). set (regulation_risk b))"
  using assms
proof (induction rs)
  case Nil
  then show ?case by simp
next
  case (Cons r rs)
  then have s: "Strict \<in> set (detectionLevel r)" and rest: "\<forall>r\<in>set rs. Strict \<in> set (detectionLevel r)"
    by simp_all
  from Cons.IH [OF rest] rule_compare [OF s, of t] show ?case
    by (auto split: option.splits)
qed

lemma registry_strict: "\<forall>r\<in>set BIAS_PATTERNS. Strict \<in> set (detectionLevel r)"
  by (simp add: BIAS_PATTERNS_def rule_defs)

lemma sum_list_sort_key:
  fixes f :: "'a \<Rightarrow> rat"
  shows "sum_list (map f (sort_key k xs)) = sum_list (map f xs)"
  by (rule sum_list_mset_eq) simp

lemma production_stricter:
  "overallScore (score_with DEFAULT_PRODUCTION_CONFIG (detect_with DEFAULT_PRODUCTION_CONFIG text))
   \<le> overallScore (score_with DEFAULT_HACKATHON_CONFIG (detect_with DEFAULT_HACKATHON_CONFIG text))"
proof -
  let ?t = "sanitizeInput text"
  note cmp = scan_compare [OF registry_strict, of ?t]
  have mP: "mode DEFAULT_PRODUCTION_CONFIG = Production"
    by (simp add: DEFAULT_PRODUCTION_CONFIG_def)
  have mH: "mode DEFAULT_HACKATHON_CONFIG = Hackathon"
    by (simp add: DEFAULT_HACKATHON_CONFIG_def)
  have t: "sum_list (map (\<lambda>b. severityMultiplier (mode DEFAULT_HACKATHON_CONFIG) (severity b) * confidence b)
            (detect_with DEFAULT_HACKATHON_CONFIG text))
       \<le> sum_list (map (\<lambda>b. severityMultiplier (mode DEFAULT_PRODUCTION_CONFIG) (severity b) * confidence b)
            (detect_with DEFAULT_PRODUCTION_CONFIG text))"
    using cmp by (simp add: detect_with_def sum_list_sort_key mP mH)
  have r: "set (snd (score_loop (mode DEFAULT_HACKATHON_CONFIG) (detect_with DEFAULT_HACKATHON_CONFIG text) (0, [])))
       \<subseteq> set (snd (score_loop (mode DEFAULT_PRODUCTION_CONFIG) (detect_with DEFAULT_PRODUCTION_CONFIG text) (0, [])))"
    using cmp by (simp add: score_loop_regulations detect_with_def)
  show ?thesis
    using overall_mono [OF t r, of DEFAULT_HACKATHON_CONFIG DEFAULT_PRODUCTION_CONFIG]
    by (simp add: score_with_alt mP mH)
qed

text \<open>
  Claim C5. For every text, when detection and scoring run once under the default Hackathon
  configuration and once under the default Production configuration and at least one
  finding triggers, the overall score under Production is at most the one under Hackathon.
  (Lemma \<open>production_stricter\<close> shows it also when no finding triggers.)
\<close>

theorem production_not_above_hackathon:
  assumes "detectBiasPatterns (Some DEFAULT_PRODUCTION_CONFIG) text = Inr fp"
    and "calculateComplianceScore (Some DEFAULT_PRODUCTION_CONFIG) fp = Inr sp"
    and "detectBiasPatterns (Some DEFAULT_HACKATHON_CONFIG) text = Inr fh"
    and "calculateComplianceScore (Some DEFAULT_HACKATHON_CONFIG) fh = Inr sh"
    and "fp \<noteq> [] \<or> fh \<noteq> []"
  shows "overallScore sp \<le> overallScore sh"
  using assms(1-4) production_stricter [of "text"]
  by (auto simp: detectBiasPatterns_def calculateComplianceScore_def)

theorem production_not_above_hackathon_witness:
  "detectBiasPatterns (Some DEFAULT_PRODUCTION_CONFIG) scenario_A =
     Inr [finding_of guys_only [js ''guys''] (22 / 25), finding_of age_proxy [js ''young''] (22 / 25)]
   \<and> detectBiasPatterns (Some DEFAULT_HACKATHON_CONFIG) scenario_A =
     Inr [finding_of age_proxy [js ''young''] (4 / 5)]
   \<and> overallScore (score_with DEFAULT_PRODUCTION_CONFIG
        [finding_of guys_only [js ''guys''] (22 / 25), finding_of age_proxy [js ''young''] (22 / 25)])
     \<le> overallScore (score_with DEFAULT_HACKATHON_CONFIG [finding_of age_proxy [js ''young''] (4 / 5)])"
proof -
  have p: "detectBiasPatterns (Some DEFAULT_PRODUCTION_CONFIG) scenario_A =
     Inr [finding_of guys_only [js ''guys''] (22 / 25), finding_of age_proxy [js ''young''] (22 / 25)]"
    by (simp add: detectBiasPatterns_def detect_scenario_A_production)
  have h: "detectBiasPatterns (Some DEFAULT_HACKATHON_CONFIG) scenario_A =
     Inr [finding_of age_proxy [js ''young''] (4 / 5)]"
    by (simp add: detectBiasPatterns_def detect_scenario_A_hackathon)
  have "overallScore (score_with DEFAULT_PRODUCTION_CONFIG
        [finding_of guys_only [js ''guys''] (22 / 25), finding_of age_proxy [js ''young''] (22 / 25)])
     \<le> overallScore (score_with DEFAULT_HACKATHON_CONFIG [finding_of age_proxy [js ''young''] (4 / 5)])"
    by (rule production_not_above_hackathon [OF p _ h]) (simp_all add: calculateComplianceScore_def)
  with p h show ?thesis by blast
qed



section \<open>The audit trail of an analysis\<close>









end
